theory Spec2Isabelle
  imports Main "HOL-Library.Word" "HOL-Library.AList"
begin

unbundle bit_operations_syntax

section \<open>Python values, errors and diagnostics\<close>

text \<open>
  The module \<^verbatim>\<open>indexer/events/blocks/utils/block_tree_serializer.py\<close> turns a classified
  block into an action record. Python \<^verbatim>\<open>str\<close> is modelled as \<^typ>\<open>string\<close> holding the
  UTF-8 bytes of the text, \<^verbatim>\<open>bytes\<close> as a list of 8-bit words, Python integers as
  \<^typ>\<open>int\<close>, \<^verbatim>\<open>None\<close> as \<^term>\<open>None\<close>. Every exception the module can raise is a
  value of \<open>py_error\<close>; the module has no \<^verbatim>\<open>try\<close>, so an exception raised anywhere
  leaves \<^verbatim>\<open>block_to_action\<close>.
\<close>

type_synonym byte = "8 word"
type_synonym bytes = "byte list"

datatype py_error = ValueError | AttributeError | KeyError | IndexError | UnicodeDecodeError

text \<open>What the module writes besides its result: \<^verbatim>\<open>logger.warning\<close>, \<^verbatim>\<open>logging.info\<close>
  and \<^verbatim>\<open>print\<close>.\<close>

datatype log_entry = Warning string | Info string | Print string

text \<open>A value that the module only passes on, into a nested dictionary of the action.\<close>

datatype pyval =
    PyNone
  | PyBool bool
  | PyInt int
  | PyStr string
  | PyBytes bytes
  | PyList "pyval list"
  | PyDict "(string \<times> pyval) list"

type_synonym pydict = "(string \<times> pyval) list"

definition py_str :: "string option \<Rightarrow> pyval" where
  "py_str s = (case s of None \<Rightarrow> PyNone | Some t \<Rightarrow> PyStr t)"

definition py_int :: "int option \<Rightarrow> pyval" where
  "py_int i = (case i of None \<Rightarrow> PyNone | Some n \<Rightarrow> PyInt n)"

subsection \<open>Strings and bytes\<close>

text \<open>\<^verbatim>\<open>s.encode()\<close>: the UTF-8 bytes of a string, which is how the string is held.\<close>

definition str_encode :: "string \<Rightarrow> bytes" where
  "str_encode s = map of_char s"

text \<open>\<^verbatim>\<open>s.replace("\u0000", "")\<close>: in UTF-8 the byte 0 occurs only as the code point
  U+0000, so the replacement drops exactly the zero bytes.\<close>

definition strip_nul :: "string \<Rightarrow> string" where
  "strip_nul s = filter (\<lambda>c. c \<noteq> CHR 0x00) s"

text \<open>Well-formed UTF-8 as the strict decoder of Python accepts it: shortest form only,
  no surrogates, nothing above U+10FFFF.\<close>

definition cont_byte :: "byte \<Rightarrow> bool" where
  "cont_byte b = (0x80 \<le> b \<and> b \<le> 0xBF)"

fun utf8_valid :: "bytes \<Rightarrow> bool" where
  "utf8_valid [] = True"
| "utf8_valid (a # r) =
     (if a \<le> 0x7F then utf8_valid r
      else if 0xC2 \<le> a \<and> a \<le> 0xDF then
        (case r of b # r1 \<Rightarrow> cont_byte b \<and> utf8_valid r1 | _ \<Rightarrow> False)
      else if 0xE0 \<le> a \<and> a \<le> 0xEF then
        (case r of b # c # r2 \<Rightarrow>
           (if a = 0xE0 then 0xA0 \<le> b \<and> b \<le> 0xBF
            else if a = 0xED then 0x80 \<le> b \<and> b \<le> 0x9F
            else cont_byte b) \<and> cont_byte c \<and> utf8_valid r2
         | _ \<Rightarrow> False)
      else if 0xF0 \<le> a \<and> a \<le> 0xF4 then
        (case r of b # c # d # r3 \<Rightarrow>
           (if a = 0xF0 then 0x90 \<le> b \<and> b \<le> 0xBF
            else if a = 0xF4 then 0x80 \<le> b \<and> b \<le> 0x8F
            else cont_byte b) \<and> cont_byte c \<and> cont_byte d \<and> utf8_valid r3
         | _ \<Rightarrow> False)
      else False)"

text \<open>\<^verbatim>\<open>b.decode("utf-8")\<close> raises \<^verbatim>\<open>UnicodeDecodeError\<close> on anything else.\<close>

definition bytes_decode :: "bytes \<Rightarrow> py_error + string" where
  "bytes_decode bs =
     (if utf8_valid bs then Inr (map (\<lambda>b. char_of (unat b)) bs) else Inl UnicodeDecodeError)"

text \<open>\<^verbatim>\<open>b.hex()\<close>: two lower-case hexadecimal digits per byte.\<close>

definition hex_digit :: "nat \<Rightarrow> char" where
  "hex_digit n = ''0123456789abcdef'' ! (n mod 16)"

definition bytes_hex :: "bytes \<Rightarrow> string" where
  "bytes_hex bs = concat (map (\<lambda>b. [hex_digit (unat b div 16), hex_digit (unat b)]) bs)"

subsection \<open>Base64\<close>

text \<open>\<^verbatim>\<open>base64.b64encode(bs).decode()\<close>: the standard alphabet, padded with \<^verbatim>\<open>=\<close>; the
  result is ASCII, so decoding it never fails.\<close>

definition b64_char :: "nat \<Rightarrow> char" where
  "b64_char n =
     ''ABCDEFGHIJKLMNOPQRSTUVWXYZabcdefghijklmnopqrstuvwxyz0123456789+/'' ! (n mod 64)"

fun b64encode :: "bytes \<Rightarrow> string" where
  "b64encode [] = []"
| "b64encode [a] =
     (let n = unat a
      in [b64_char (n div 4), b64_char (n mod 4 * 16), CHR ''='', CHR ''=''])"
| "b64encode [a, b] =
     (let n = unat a * 256 + unat b
      in [b64_char (n div 1024), b64_char (n div 16), b64_char (n mod 16 * 4), CHR ''=''])"
| "b64encode (a # b # c # r) =
     (let n = unat a * 65536 + unat b * 256 + unat c
      in [b64_char (n div 262144), b64_char (n div 4096), b64_char (n div 64), b64_char n]
         @ b64encode r)"

subsection \<open>SHA-256\<close>

text \<open>\<^verbatim>\<open>hashlib.sha256(bs).digest()\<close>, written out from FIPS 180-4 on 32-bit words.\<close>

type_synonym w32 = "32 word"

definition sha256_k :: "w32 list" where
  "sha256_k =
   [0x428A2F98, 0x71374491, 0xB5C0FBCF, 0xE9B5DBA5, 0x3956C25B, 0x59F111F1,
    0x923F82A4, 0xAB1C5ED5, 0xD807AA98, 0x12835B01, 0x243185BE, 0x550C7DC3,
    0x72BE5D74, 0x80DEB1FE, 0x9BDC06A7, 0xC19BF174, 0xE49B69C1, 0xEFBE4786,
    0x0FC19DC6, 0x240CA1CC, 0x2DE92C6F, 0x4A7484AA, 0x5CB0A9DC, 0x76F988DA,
    0x983E5152, 0xA831C66D, 0xB00327C8, 0xBF597FC7, 0xC6E00BF3, 0xD5A79147,
    0x06CA6351, 0x14292967, 0x27B70A85, 0x2E1B2138, 0x4D2C6DFC, 0x53380D13,
    0x650A7354, 0x766A0ABB, 0x81C2C92E, 0x92722C85, 0xA2BFE8A1, 0xA81A664B,
    0xC24B8B70, 0xC76C51A3, 0xD192E819, 0xD6990624, 0xF40E3585, 0x106AA070,
    0x19A4C116, 0x1E376C08, 0x2748774C, 0x34B0BCB5, 0x391C0CB3, 0x4ED8AA4A,
    0x5B9CCA4F, 0x682E6FF3, 0x748F82EE, 0x78A5636F, 0x84C87814, 0x8CC70208,
    0x90BEFFFA, 0xA4506CEB, 0xBEF9A3F7, 0xC67178F2]"

definition sha256_h0 :: "w32 list" where
  "sha256_h0 =
   [0x6A09E667, 0xBB67AE85, 0x3C6EF372, 0xA54FF53A,
    0x510E527F, 0x9B05688C, 0x1F83D9AB, 0x5BE0CD19]"

definition sha_ch :: "w32 \<Rightarrow> w32 \<Rightarrow> w32 \<Rightarrow> w32" where
  "sha_ch x y z = (x AND y) XOR (NOT x AND z)"

definition sha_maj :: "w32 \<Rightarrow> w32 \<Rightarrow> w32 \<Rightarrow> w32" where
  "sha_maj x y z = (x AND y) XOR (x AND z) XOR (y AND z)"

definition big_sigma0 :: "w32 \<Rightarrow> w32" where
  "big_sigma0 x = word_rotr 2 x XOR word_rotr 13 x XOR word_rotr 22 x"

definition big_sigma1 :: "w32 \<Rightarrow> w32" where
  "big_sigma1 x = word_rotr 6 x XOR word_rotr 11 x XOR word_rotr 25 x"

definition small_sigma0 :: "w32 \<Rightarrow> w32" where
  "small_sigma0 x = word_rotr 7 x XOR word_rotr 18 x XOR drop_bit 3 x"

definition small_sigma1 :: "w32 \<Rightarrow> w32" where
  "small_sigma1 x = word_rotr 17 x XOR word_rotr 19 x XOR drop_bit 10 x"

text \<open>Padding: the byte \<^verbatim>\<open>0x80\<close>, zero bytes up to 56 modulo 64, then the length in bits
  as eight big-endian bytes.\<close>

definition sha256_pad :: "bytes \<Rightarrow> bytes" where
  "sha256_pad m =
     (let l = length m
      in m @ [0x80] @ replicate ((119 - l mod 64) mod 64) 0
           @ map (\<lambda>i. ucast (drop_bit (8 * (7 - i)) (of_nat (8 * l) :: 64 word))) [0..<8])"

fun be_words :: "bytes \<Rightarrow> w32 list" where
  "be_words (a # b # c # d # r) =
     (push_bit 24 (ucast a) OR push_bit 16 (ucast b) OR push_bit 8 (ucast c) OR ucast d)
     # be_words r"
| "be_words _ = []"

definition word_bytes :: "w32 \<Rightarrow> bytes" where
  "word_bytes w = [ucast (drop_bit 24 w), ucast (drop_bit 16 w), ucast (drop_bit 8 w), ucast w]"

fun sha256_schedule :: "nat \<Rightarrow> w32 list \<Rightarrow> w32 list" where
  "sha256_schedule 0 w = w"
| "sha256_schedule (Suc n) w =
     (let t = length w
      in sha256_schedule n
           (w @ [small_sigma1 (w ! (t - 2)) + w ! (t - 7)
                 + small_sigma0 (w ! (t - 15)) + w ! (t - 16)]))"

fun sha256_round :: "w32 list \<Rightarrow> w32 \<times> w32 \<Rightarrow> w32 list" where
  "sha256_round [a, b, c, d, e, f, g, h] (k, w) =
     (let t1 = h + big_sigma1 e + sha_ch e f g + k + w;
          t2 = big_sigma0 a + sha_maj a b c
      in [t1 + t2, a, b, c, d + t1, e, f, g])"
| "sha256_round s _ = s"

definition sha256_compress :: "w32 list \<Rightarrow> w32 list \<Rightarrow> w32 list" where
  "sha256_compress h blk =
     map2 (+) h (foldl sha256_round h (zip sha256_k (sha256_schedule 48 blk)))"

fun sha256_blocks :: "w32 list \<Rightarrow> w32 list \<Rightarrow> w32 list" where
  "sha256_blocks h ws =
     (if length ws < 16 then h
      else sha256_blocks (sha256_compress h (take 16 ws)) (drop 16 ws))"

definition sha256 :: "bytes \<Rightarrow> bytes" where
  "sha256 m = concat (map word_bytes (sha256_blocks sha256_h0 (be_words (sha256_pad m))))"

section \<open>The input: event nodes and blocks\<close>

text \<open>
  The classes of the input are declared outside this module; each is a record of the
  attributes that this module reads, with the type the module expects there. An attribute
  that the module compares with \<^verbatim>\<open>None\<close>, tests for truth or looks up with \<^verbatim>\<open>in\<close>
  is an option (an account identifier that is there counts as true); one that it
  dereferences without a test has the type of the value.
\<close>

datatype account_id = AccountId (as_str: string)

datatype amount = Amount (value': int)

record asset =
  is_ton :: bool
  jetton_address :: "account_id option"

text \<open>\<^verbatim>\<open>_addr\<close> takes an account identifier, an asset reference or \<^verbatim>\<open>None\<close>.\<close>

datatype addr_ref = Account account_id | AssetRef asset

record transaction =
  account :: "string option"

record message =
  msg_hash :: string
  msg_transaction :: transaction
  msg_trace_id :: string

text \<open>
  Modelled from the spec: the class \<^verbatim>\<open>EventNode\<close> and its methods \<^verbatim>\<open>get_lt\<close> and
  \<^verbatim>\<open>get_tx_hash\<close> are not part of this module. A node exposes its logical time, its
  transaction hash (null when unavailable), a message reference or null, and for a
  tick-tock node its own transaction. The two methods are the fields of their name.
\<close>

record event_node =
  message :: "message option"
  is_tick_tock :: bool
  tick_tock_tx :: "transaction option"
  get_lt :: int
  get_tx_hash :: "string option"

subsection \<open>Payloads, one per block class\<close>

record call_contract_block =
  cc_opcode :: "int option"
  cc_value :: amount
  cc_source :: "account_id option"
  cc_destination :: "account_id option"

record ton_transfer_block =
  tt_value :: "int option"
  tt_source :: account_id
  tt_destination :: "account_id option"
  tt_comment :: "string option"
  tt_encrypted :: pyval

text \<open>For a key that a normalizer looks up with \<^verbatim>\<open>in\<close>, the outer option says whether
  the key is in the dictionary, the inner one whether its value is null.\<close>

record jetton_transfer_block =
  jt_sender :: account_id
  jt_sender_wallet :: account_id
  jt_receiver :: account_id
  jt_receiver_wallet :: "account_id option option"
  jt_amount :: amount
  jt_asset :: "asset option"
  jt_comment :: "bytes option"
  jt_encrypted_comment :: bool
  jt_query_id :: pyval
  jt_response_address :: "account_id option"
  jt_forward_amount :: amount
  jt_custom_payload :: pyval
  jt_forward_payload :: pyval

record nft_transfer_block =
  nt_prev_owner :: "account_id option"
  nt_new_owner :: account_id
  nt_nft_address :: account_id
  nt_nft_collection_address :: "account_id option"
  nt_nft_index :: pyval
  nt_query_id :: pyval
  nt_is_purchase :: bool
  nt_price :: "amount option option"
  nt_forward_amount :: "amount option"
  nt_custom_payload :: pyval
  nt_forward_payload :: pyval
  nt_response_destination :: "account_id option"

record nft_discovery_block =
  nd_sender :: account_id
  nd_nft :: account_id
  nd_query_id :: pyval
  nd_result_collection :: account_id
  nd_result_index :: pyval

record nft_mint_block =
  nm_source :: "account_id option"
  nm_address :: account_id
  nm_opcode :: "int option"
  nm_collection :: "account_id option"
  nm_index :: pyval

record swap_transfer =
  st_amount :: amount
  st_source :: "addr_ref option"
  st_source_jetton_wallet :: "addr_ref option"
  st_destination :: "addr_ref option"
  st_destination_jetton_wallet :: "addr_ref option"
  st_asset :: "addr_ref option"

record jetton_swap_block =
  js_dex :: string
  js_sender :: "addr_ref option"
  js_dex_incoming_transfer :: swap_transfer
  js_dex_outgoing_transfer :: swap_transfer
  js_source_asset :: "addr_ref option option"
  js_destination_asset :: "addr_ref option option"
  js_destination_wallet :: "addr_ref option option"

record dex_deposit_liquidity_block =
  dl_sender :: "addr_ref option"
  dl_pool :: "addr_ref option"
  dl_dex :: pyval
  dl_amount_1 :: "amount option"
  dl_amount_2 :: "amount option"
  dl_asset_1 :: "addr_ref option"
  dl_asset_2 :: "addr_ref option"
  dl_sender_wallet_1 :: "addr_ref option"
  dl_sender_wallet_2 :: "addr_ref option"
  dl_lp_tokens_minted :: "amount option"

record dex_withdraw_liquidity_block =
  dw_sender :: "addr_ref option"
  dw_sender_wallet :: "addr_ref option"
  dw_pool :: "addr_ref option"
  dw_asset :: "addr_ref option"
  dw_dex :: pyval
  dw_amount1_out :: "amount option"
  dw_amount2_out :: "amount option"
  dw_asset1_out :: "addr_ref option"
  dw_asset2_out :: "addr_ref option"
  dw_wallet1 :: "addr_ref option"
  dw_wallet2 :: "addr_ref option"
  dw_dex_jetton_wallet_1 :: "addr_ref option"
  dw_dex_wallet_1 :: "addr_ref option"
  dw_dex_wallet_2 :: "addr_ref option"
  dw_dex_jetton_wallet_2 :: "addr_ref option"
  dw_is_refund :: pyval
  dw_lp_tokens_burnt :: "amount option"

record jvault_stake_block =
  jvs_sender :: "addr_ref option"
  jvs_stake_wallet :: "addr_ref option"
  jvs_staking_pool :: "addr_ref option"
  jvs_staked_amount :: "int option"
  jvs_period :: pyval
  jvs_minted_stake_jettons :: pyval

record jvault_unstake_block =
  jvu_sender :: "addr_ref option"
  jvu_stake_wallet :: "addr_ref option"
  jvu_staking_pool :: "addr_ref option"
  jvu_unstaked_amount :: "int option"

record jvault_claim_block =
  jvc_sender :: "addr_ref option"
  jvc_stake_wallet :: "addr_ref option"
  jvc_staking_pool :: "addr_ref option"
  jvc_claimed_jettons :: "addr_ref option list"
  jvc_claimed_amounts :: pyval

record multisig_create_order_block =
  mc_created_by :: "addr_ref option"
  mc_multisig :: "addr_ref option"
  mc_order_contract_address :: "addr_ref option"
  mc_query_id :: pyval
  mc_order_seqno :: pyval
  mc_is_created_by_signer :: pyval
  mc_creator_approved :: pyval
  mc_creator_index :: pyval
  mc_expiration_date :: pyval
  mc_order_boc_str :: pyval

record multisig_approve_block =
  ma_signer :: "addr_ref option"
  ma_order :: "addr_ref option"
  ma_success :: bool
  ma_signer_index :: pyval
  ma_exit_code :: pyval

record vesting_send_message_block =
  vs_sender :: "addr_ref option"
  vs_vesting :: "addr_ref option"
  vs_message_destination :: "addr_ref option"
  vs_message_value :: amount
  vs_query_id :: pyval
  vs_message_boc_str :: pyval

record vesting_add_whitelist_block =
  va_adder :: "addr_ref option"
  va_vesting :: "addr_ref option"
  va_query_id :: pyval
  va_accounts_added :: "addr_ref option list"

record jetton_burn_block =
  jb_owner :: account_id
  jb_jetton_wallet :: account_id
  jb_asset :: asset
  jb_amount :: amount

record jetton_mint_block =
  jm_to :: "addr_ref option"
  jm_to_jetton_wallet :: "addr_ref option"
  jm_asset :: asset
  jm_amount :: "amount option"
  jm_ton_amount :: "amount option"

text \<open>The value of a DNS record is a dictionary whose keys depend on its schema: an
  option field is \<^term>\<open>None\<close> when the key is not there. The address is an account
  identifier or, for an ADNL record, raw bytes.\<close>

datatype dns_address = SmcAddress account_id | AdnlAddress bytes

record dns_record =
  dr_schema :: string
  dr_address :: "dns_address option"
  dr_flags :: "pyval option"
  dr_dns_text :: "pyval option"

record dns_change_record_block =
  dc_source :: "account_id option"
  dc_destination :: account_id
  dc_key :: bytes
  dc_value :: dns_record

record dns_delete_record_block =
  dd_source :: "account_id option"
  dd_destination :: account_id
  dd_key :: bytes

record dns_renew_block =
  dn_source :: "addr_ref option"
  dn_destination :: "addr_ref option"

record tonstakers_deposit_block =
  tsd_source :: "addr_ref option"
  tsd_pool :: "addr_ref option"
  tsd_value :: amount

record tonstakers_withdraw_request_block =
  tsr_source :: "addr_ref option"
  tsr_tsTON_wallet :: "addr_ref option"
  tsr_pool :: "addr_ref option"
  tsr_tokens_burnt :: amount
  tsr_minted_nft :: "addr_ref option"

record tonstakers_withdraw_block =
  tsw_stake_holder :: "addr_ref option"
  tsw_pool :: "addr_ref option"
  tsw_amount :: amount
  tsw_burnt_nft :: "addr_ref option"

record subscribe_block =
  sb_subscriber :: account_id
  sb_beneficiary :: "account_id option"
  sb_subscription :: account_id
  sb_amount :: amount

record unsubscribe_block =
  ub_subscriber :: account_id
  ub_beneficiary :: "account_id option"
  ub_subscription :: account_id

record election_block =
  el_stake_holder :: account_id
  el_amount :: "amount option option"

record auction_bid_block =
  ab_bidder :: account_id
  ab_auction :: account_id
  ab_nft_address :: account_id
  ab_nft_collection :: "addr_ref option"
  ab_nft_item_index :: pyval
  ab_amount :: amount

record dedust_deposit_liquidity_block =
  ddl_sender :: "addr_ref option"
  ddl_pool_address :: "addr_ref option"
  ddl_deposit_contract :: "addr_ref option"
  ddl_dex :: pyval
  ddl_asset_1 :: asset
  ddl_amount_1 :: amount
  ddl_asset_2 :: asset
  ddl_amount_2 :: amount
  ddl_user_jetton_wallet_1 :: "addr_ref option"
  ddl_user_jetton_wallet_2 :: "addr_ref option"
  ddl_lp_tokens_minted :: amount

record dedust_deposit_liquidity_partial_block =
  ddp_sender :: "addr_ref option"
  ddp_deposit_contract :: "addr_ref option"
  ddp_dex :: pyval
  ddp_asset_1 :: asset
  ddp_amount_1 :: amount
  ddp_asset_2 :: asset
  ddp_amount_2 :: amount
  ddp_user_jetton_wallet_1 :: "addr_ref option"
  ddp_user_jetton_wallet_2 :: "addr_ref option"

record nominator_pool_deposit_block =
  npd_source :: account_id
  npd_pool :: account_id
  npd_value :: amount

record nominator_pool_withdraw_request_block =
  npw_payout_amount :: "amount option"
  npw_source :: account_id
  npw_pool :: account_id

text \<open>The class of a block with its payload, in the order of the \<^verbatim>\<open>match\<close> statement of
  \<^verbatim>\<open>block_to_action\<close>; \<open>OtherBlock\<close> is a block of none of these classes.\<close>

datatype block_data =
    CallContractBlock call_contract_block
  | ContractDeployBlock call_contract_block
  | TonTransferBlock ton_transfer_block
  | NominatorPoolDepositBlock nominator_pool_deposit_block
  | NominatorPoolWithdrawRequestBlock nominator_pool_withdraw_request_block
  | DedustDepositLiquidityBlock dedust_deposit_liquidity_block
  | DedustDepositLiquidityPartialBlock dedust_deposit_liquidity_partial_block
  | JettonTransferBlock jetton_transfer_block
  | NftTransferBlock nft_transfer_block
  | NftDiscoveryBlock nft_discovery_block
  | NftMintBlock nft_mint_block
  | JettonBurnBlock jetton_burn_block
  | JettonMintBlock jetton_mint_block
  | JettonSwapBlock jetton_swap_block
  | DnsChangeRecordBlock dns_change_record_block
  | DnsDeleteRecordBlock dns_delete_record_block
  | DnsRenewBlock dns_renew_block
  | TONStakersDepositBlock tonstakers_deposit_block
  | TONStakersWithdrawRequestBlock tonstakers_withdraw_request_block
  | TONStakersWithdrawBlock tonstakers_withdraw_block
  | SubscribeBlock subscribe_block
  | DexDepositLiquidityBlock dex_deposit_liquidity_block
  | DexWithdrawLiquidityBlock dex_withdraw_liquidity_block
  | JVaultStakeBlock jvault_stake_block
  | JVaultUnstakeBlock jvault_unstake_block
  | JVaultClaimBlock jvault_claim_block
  | MultisigCreateOrderBlock multisig_create_order_block
  | MultisigApproveBlock multisig_approve_block
  | VestingSendMessageBlock vesting_send_message_block
  | VestingAddWhiteListBlock vesting_add_whitelist_block
  | UnsubscribeBlock unsubscribe_block
  | ElectionDepositStakeBlock election_block
  | ElectionRecoverStakeBlock election_block
  | AuctionBidBlock auction_bid_block
  | OtherBlock

record block =
  btype :: string
  event_nodes :: "event_node list"
  data :: block_data
  min_lt :: int
  max_lt :: int
  min_utime :: int
  max_utime :: int
  failed :: bool
  initiating_event_node :: "event_node option"

section \<open>The output: the action record\<close>

text \<open>The attributes of \<^verbatim>\<open>Action\<close> that the module assigns. An attribute that was
  never assigned is null; a nested payload is a dictionary with string keys.\<close>

record action =
  trace_id :: string
  type :: string
  action_id :: string
  tx_hashes :: "string option list"
  start_lt :: int
  end_lt :: int
  start_utime :: int
  end_utime :: int
  success :: bool
  accounts :: "string option list"
  extended_tx_hashes :: "string option list"
  source :: "string option"
  source_secondary :: "string option"
  destination :: "string option"
  destination_secondary :: "string option"
  asset :: "string option"
  asset_secondary :: "string option"
  asset2 :: "string option"
  amount :: "int option"
  act_value :: "int option"
  opcode :: "int option"
  ton_transfer_data :: "pydict option"
  jetton_transfer_data :: "pydict option"
  nft_transfer_data :: "pydict option"
  nft_discovery_data :: "pydict option"
  nft_mint_data :: "pydict option"
  jetton_swap_data :: "pydict option"
  dex_deposit_liquidity_data :: "pydict option"
  dex_withdraw_liquidity_data :: "pydict option"
  jvault_stake_data :: "pydict option"
  jvault_claim_data :: "pydict option"
  multisig_create_order_data :: "pydict option"
  multisig_approve_data :: "pydict option"
  vesting_send_message_data :: "pydict option"
  vesting_add_whitelist_data :: "pydict option"
  change_dns_record_data :: "pydict option"
  staking_data :: "pydict option"

section \<open>Python primitives used by the module\<close>

text \<open>\<^verbatim>\<open>x or ""\<close> on a string or \<^verbatim>\<open>None\<close>.\<close>

definition or_empty :: "string option \<Rightarrow> string" where
  "or_empty x = (case x of None \<Rightarrow> [] | Some s \<Rightarrow> (if s = [] then [] else s))"

text \<open>A string or \<^verbatim>\<open>None\<close> inside an f-string.\<close>

definition fmt :: "string option \<Rightarrow> string" where
  "fmt x = (case x of None \<Rightarrow> ''None'' | Some s \<Rightarrow> s)"

text \<open>\<^verbatim>\<open>d[k].f() if k in d else None\<close>: the value is dereferenced whenever the key is
  there, so a key with a null value raises \<^verbatim>\<open>AttributeError\<close>.\<close>

definition key_attr :: "'a option option \<Rightarrow> ('a \<Rightarrow> 'b) \<Rightarrow> py_error + 'b option" where
  "key_attr x f =
     (case x of
        None \<Rightarrow> Inr None
      | Some None \<Rightarrow> Inl AttributeError
      | Some (Some v) \<Rightarrow> Inr (Some (f v)))"

text \<open>\<^verbatim>\<open>min(xs, key=f)\<close>: the running minimum is replaced only by a strictly smaller
  key, and an empty sequence raises \<^verbatim>\<open>ValueError\<close>.\<close>

fun min_from :: "('a \<Rightarrow> int) \<Rightarrow> 'a \<Rightarrow> 'a list \<Rightarrow> 'a" where
  "min_from key m [] = m"
| "min_from key m (x # xs) = min_from key (if key x < key m then x else m) xs"

definition py_min :: "('a \<Rightarrow> int) \<Rightarrow> 'a list \<Rightarrow> py_error + 'a" where
  "py_min key xs = (case xs of [] \<Rightarrow> Inl ValueError | x # r \<Rightarrow> Inr (min_from key x r))"

text \<open>
  \<^verbatim>\<open>list(set(xs))\<close>: the elements of \<open>xs\<close>, each once, in the iteration order of the set.
  That order is not fixed by the elements: it follows the hash values of the strings, which
  CPython draws afresh for every interpreter process. A \<open>set_order\<close> is the order of one
  process, taking the sequence in which the elements were added; \<open>set_order_ok\<close> says what
  every process guarantees.
\<close>

type_synonym set_order = "string option list \<Rightarrow> string option list"

definition set_order_ok :: "set_order \<Rightarrow> bool" where
  "set_order_ok it = (\<forall>xs. set (it xs) = set xs \<and> distinct (it xs))"

section \<open>The module\<close>

fun addr :: "addr_ref option \<Rightarrow> string option" where
  "addr None = None"
| "addr (Some (AssetRef a)) =
     (case jetton_address a of Some j \<Rightarrow> Some (as_str j) | None \<Rightarrow> None)"
| "addr (Some (Account a)) = Some (as_str a)"

definition calc_action_id :: "block \<Rightarrow> py_error + string" where
  "calc_action_id b =
     (case py_min get_lt (event_nodes b) of
        Inl e \<Rightarrow> Inl e
      | Inr root_event_node \<Rightarrow>
          (let key = (case message root_event_node of
                        Some m \<Rightarrow> msg_hash m
                      | None \<Rightarrow> or_empty (get_tx_hash root_event_node));
               key = key @ btype b
           in Inr (b64encode (sha256 (str_encode key)))))"

text \<open>The constructor call \<^verbatim>\<open>Action(...)\<close> of the base converter: the attributes it does
  not name are null (the two lists that are assigned later start empty).\<close>

definition new_action ::
  "string \<Rightarrow> string \<Rightarrow> string \<Rightarrow> string option list \<Rightarrow> int \<Rightarrow> int \<Rightarrow> int \<Rightarrow> int \<Rightarrow> bool
   \<Rightarrow> action" where
  "new_action tid ty aid txs slt elt sut eut ok =
     \<lparr>trace_id = tid, type = ty, action_id = aid, tx_hashes = txs,
      start_lt = slt, end_lt = elt, start_utime = sut, end_utime = eut, success = ok,
      accounts = [], extended_tx_hashes = [],
      source = None, source_secondary = None, destination = None,
      destination_secondary = None, asset = None, asset_secondary = None, asset2 = None,
      amount = None, act_value = None, opcode = None,
      ton_transfer_data = None, jetton_transfer_data = None, nft_transfer_data = None,
      nft_discovery_data = None, nft_mint_data = None, jetton_swap_data = None,
      dex_deposit_liquidity_data = None, dex_withdraw_liquidity_data = None,
      jvault_stake_data = None, jvault_claim_data = None,
      multisig_create_order_data = None, multisig_approve_data = None,
      vesting_send_message_data = None, vesting_add_whitelist_data = None,
      change_dns_record_data = None, staking_data = None\<rparr>"

text \<open>The body of the loop over the event nodes in the base converter: dereferencing a
  missing transaction or message raises \<^verbatim>\<open>AttributeError\<close>.\<close>

definition node_account :: "event_node \<Rightarrow> py_error + string option" where
  "node_account n =
     (if is_tick_tock n then
        (case tick_tock_tx n of None \<Rightarrow> Inl AttributeError | Some t \<Rightarrow> Inr (account t))
      else
        (case message n of
           None \<Rightarrow> Inl AttributeError
         | Some m \<Rightarrow> Inr (account (msg_transaction m))))"

fun node_accounts :: "event_node list \<Rightarrow> py_error + string option list" where
  "node_accounts [] = Inr []"
| "node_accounts (n # ns) =
     (case node_account n of
        Inl e \<Rightarrow> Inl e
      | Inr a \<Rightarrow> (case node_accounts ns of Inl e \<Rightarrow> Inl e | Inr r \<Rightarrow> Inr (a # r)))"

definition base_block_to_action :: "set_order \<Rightarrow> block \<Rightarrow> string \<Rightarrow> py_error + action" where
  "base_block_to_action it b tid =
     (case calc_action_id b of
        Inl e \<Rightarrow> Inl e
      | Inr aid \<Rightarrow>
          (let txs = it (map get_tx_hash (event_nodes b))
           in case node_accounts (event_nodes b) of
                Inl e \<Rightarrow> Inl e
              | Inr accs \<Rightarrow>
                  Inr ((new_action tid (btype b) aid txs (min_lt b) (max_lt b)
                          (min_utime b) (max_utime b) (\<not> failed b))
                       \<lparr>accounts := accs\<rparr>)))"

subsection \<open>The variant normalizers\<close>

definition fill_call_contract_action :: "call_contract_block \<Rightarrow> action \<Rightarrow> action" where
  "fill_call_contract_action d a =
     a\<lparr>opcode := cc_opcode d,
       act_value := Some (value' (cc_value d)),
       source := map_option as_str (cc_source d),
       destination := map_option as_str (cc_destination d)\<rparr>"

text \<open>With a null destination the normalizer prints the trace id of the first event node
  and then calls \<^verbatim>\<open>as_str\<close> on the null.\<close>

definition fill_ton_transfer_action ::
  "block \<Rightarrow> ton_transfer_block \<Rightarrow> action \<Rightarrow> (py_error + action) \<times> log_entry list" where
  "fill_ton_transfer_action b d a =
     (let a = a\<lparr>act_value := tt_value d, source := Some (as_str (tt_source d))\<rparr>
      in case tt_destination d of
           None \<Rightarrow>
             (case event_nodes b of
                [] \<Rightarrow> (Inl IndexError, [])
              | n # _ \<Rightarrow>
                  (case message n of
                     None \<Rightarrow> (Inl AttributeError, [])
                   | Some m \<Rightarrow>
                       (Inl AttributeError,
                        [Print (''Something very wrong '' @ msg_trace_id m)])))
         | Some dst \<Rightarrow>
             (Inr (a\<lparr>destination := Some (as_str dst),
                     ton_transfer_data :=
                       Some [(''content'', py_str (map_option strip_nul (tt_comment d))),
                             (''encrypted'', tt_encrypted d)]\<rparr>),
              []))"

definition jetton_transfer_asset :: "asset option \<Rightarrow> py_error + string option" where
  "jetton_transfer_asset x =
     (case x of
        None \<Rightarrow> Inr None
      | Some ast \<Rightarrow>
          (if is_ton ast then Inr None
           else (case jetton_address ast of
                   None \<Rightarrow> Inl AttributeError
                 | Some j \<Rightarrow> Inr (Some (as_str j)))))"

definition jetton_transfer_comment :: "bytes option \<Rightarrow> bool \<Rightarrow> py_error + string option" where
  "jetton_transfer_comment c encrypted =
     (case c of
        None \<Rightarrow> Inr None
      | Some bs \<Rightarrow>
          (if encrypted then Inr (Some (b64encode bs))
           else (case bytes_decode bs of
                   Inl e \<Rightarrow> Inl e
                 | Inr s \<Rightarrow> Inr (Some (strip_nul s)))))"

text \<open>The receiver's wallet is dereferenced whenever its key is there: a key with a null
  value raises \<^verbatim>\<open>AttributeError\<close>.\<close>

definition fill_jetton_transfer_action :: "jetton_transfer_block \<Rightarrow> action \<Rightarrow> py_error + action" where
  "fill_jetton_transfer_action d a =
     (let a = a\<lparr>source := Some (as_str (jt_sender d)),
                source_secondary := Some (as_str (jt_sender_wallet d)),
                destination := Some (as_str (jt_receiver d))\<rparr>
      in case key_attr (jt_receiver_wallet d) as_str of
           Inl e \<Rightarrow> Inl e
         | Inr receiver_wallet \<Rightarrow>
             (let a = a\<lparr>destination_secondary := receiver_wallet,
                        amount := Some (value' (jt_amount d))\<rparr>
              in case jetton_transfer_asset (jt_asset d) of
                   Inl e \<Rightarrow> Inl e
                 | Inr ast \<Rightarrow>
                     (case jetton_transfer_comment (jt_comment d) (jt_encrypted_comment d) of
                        Inl e \<Rightarrow> Inl e
                      | Inr comment \<Rightarrow>
                          Inr (a\<lparr>asset := ast,
                                 jetton_transfer_data :=
                                   Some [(''query_id'', jt_query_id d),
                                         (''response_destination'',
                                            py_str (map_option as_str
                                                      (jt_response_address d))),
                                         (''forward_amount'',
                                            PyInt (value' (jt_forward_amount d))),
                                         (''custom_payload'', jt_custom_payload d),
                                         (''forward_payload'', jt_forward_payload d),
                                         (''comment'', py_str comment),
                                         (''is_encrypted_comment'',
                                            PyBool (jt_encrypted_comment d))]\<rparr>))))"

text \<open>The price is dereferenced when its key is there and the transfer is a purchase: a
  key with a null value then raises \<^verbatim>\<open>AttributeError\<close>.\<close>

definition fill_nft_transfer_action :: "nft_transfer_block \<Rightarrow> action \<Rightarrow> py_error + action" where
  "fill_nft_transfer_action d a =
     (let a = (case nt_prev_owner d of
                 Some p \<Rightarrow> a\<lparr>source := Some (as_str p)\<rparr>
               | None \<Rightarrow> a);
          a = a\<lparr>destination := Some (as_str (nt_new_owner d)),
                asset_secondary := Some (as_str (nt_nft_address d))\<rparr>;
          a = (case nt_nft_collection_address d of
                 Some c \<Rightarrow> a\<lparr>asset := Some (as_str c)\<rparr>
               | None \<Rightarrow> a)
      in case (if nt_is_purchase d then key_attr (nt_price d) value' else Inr None) of
           Inl e \<Rightarrow> Inl e
         | Inr price \<Rightarrow>
             Inr (a\<lparr>nft_transfer_data :=
                    Some [(''query_id'', nt_query_id d),
                          (''is_purchase'', PyBool (nt_is_purchase d)),
                          (''price'', py_int price),
                          (''nft_item_index'', nt_nft_index d),
                          (''forward_amount'',
                             py_int (map_option value' (nt_forward_amount d))),
                          (''custom_payload'', nt_custom_payload d),
                          (''forward_payload'', nt_forward_payload d),
                          (''response_destination'',
                             py_str (map_option as_str (nt_response_destination d)))]\<rparr>))"

definition fill_nft_discovery_action :: "nft_discovery_block \<Rightarrow> action \<Rightarrow> action" where
  "fill_nft_discovery_action d a =
     a\<lparr>source := Some (as_str (nd_sender d)),
       destination := Some (as_str (nd_nft d)),
       nft_discovery_data :=
         Some [(''query_id'', nd_query_id d),
               (''collection_address'', PyStr (as_str (nd_result_collection d))),
               (''nft_item_index'', nd_result_index d)]\<rparr>"

definition fill_nft_mint_action :: "nft_mint_block \<Rightarrow> action \<Rightarrow> action" where
  "fill_nft_mint_action d a =
     (let a = (case nm_source d of
                 Some s \<Rightarrow> a\<lparr>source := Some (as_str s)\<rparr>
               | None \<Rightarrow> a);
          a = a\<lparr>destination := Some (as_str (nm_address d))\<rparr>;
          a = a\<lparr>asset_secondary := destination a, opcode := nm_opcode d\<rparr>;
          a = (case nm_collection d of
                 Some c \<Rightarrow> a\<lparr>asset := Some (as_str c)\<rparr>
               | None \<Rightarrow> a)
      in a\<lparr>nft_mint_data := Some [(''nft_item_index'', nm_index d)]\<rparr>)"

definition swap_transfer_dict :: "swap_transfer \<Rightarrow> pydict" where
  "swap_transfer_dict t =
     [(''amount'', PyInt (value' (st_amount t))),
      (''source'', py_str (addr (st_source t))),
      (''source_jetton_wallet'', py_str (addr (st_source_jetton_wallet t))),
      (''destination'', py_str (addr (st_destination t))),
      (''destination_jetton_wallet'', py_str (addr (st_destination_jetton_wallet t))),
      (''asset'', py_str (addr (st_asset t)))]"

text \<open>For \<^verbatim>\<open>stonfi_v2\<close> the two asset keys are read without a test, so a missing key
  raises \<^verbatim>\<open>KeyError\<close>.\<close>

definition fill_jetton_swap_action :: "jetton_swap_block \<Rightarrow> action \<Rightarrow> py_error + action" where
  "fill_jetton_swap_action d a =
     (let tin = js_dex_incoming_transfer d;
          tout = js_dex_outgoing_transfer d;
          a = a\<lparr>asset := addr (st_asset tin), asset2 := addr (st_asset tout)\<rparr>
      in case (if js_dex d = ''stonfi_v2'' then
                 (case js_source_asset d of
                    None \<Rightarrow> Inl KeyError
                  | Some sa \<Rightarrow>
                      (case js_destination_asset d of
                         None \<Rightarrow> Inl KeyError
                       | Some da \<Rightarrow> Inr (a\<lparr>asset := addr sa, asset2 := addr da\<rparr>)))
               else Inr a) of
           Inl e \<Rightarrow> Inl e
         | Inr a \<Rightarrow>
             (let a = a\<lparr>source := addr (st_source tin),
                        source_secondary := addr (st_source_jetton_wallet tin),
                        destination := addr (st_destination tout),
                        destination_secondary := addr (st_destination_jetton_wallet tout)\<rparr>;
                  a = (case js_destination_wallet d of
                         Some (Some w) \<Rightarrow> a\<lparr>destination_secondary := addr (Some w)\<rparr>
                       | _ \<Rightarrow> a);
                  a = (case js_destination_asset d of
                         Some (Some x) \<Rightarrow> a\<lparr>asset2 := addr (Some x)\<rparr>
                       | _ \<Rightarrow> a)
              in Inr (a\<lparr>jetton_swap_data :=
                          Some [(''dex'', PyStr (js_dex d)),
                                (''sender'', py_str (addr (js_sender d))),
                                (''dex_incoming_transfer'', PyDict (swap_transfer_dict tin)),
                                (''dex_outgoing_transfer'',
                                   PyDict (swap_transfer_dict tout))]\<rparr>)))"

definition fill_dex_deposit_liquidity :: "dex_deposit_liquidity_block \<Rightarrow> action \<Rightarrow> action" where
  "fill_dex_deposit_liquidity d a =
     a\<lparr>source := addr (dl_sender d),
       destination := addr (dl_pool d),
       dex_deposit_liquidity_data :=
         Some [(''dex'', dl_dex d),
               (''amount1'', py_int (map_option value' (dl_amount_1 d))),
               (''amount2'', py_int (map_option value' (dl_amount_2 d))),
               (''asset1'', py_str (addr (dl_asset_1 d))),
               (''asset2'', py_str (addr (dl_asset_2 d))),
               (''user_jetton_wallet_1'', py_str (addr (dl_sender_wallet_1 d))),
               (''user_jetton_wallet_2'', py_str (addr (dl_sender_wallet_2 d))),
               (''lp_tokens_minted'',
                  py_int (map_option value' (dl_lp_tokens_minted d)))]\<rparr>"

definition fill_dex_withdraw_liquidity :: "dex_withdraw_liquidity_block \<Rightarrow> action \<Rightarrow> action" where
  "fill_dex_withdraw_liquidity d a =
     a\<lparr>source := addr (dw_sender d),
       source_secondary := addr (dw_sender_wallet d),
       destination := addr (dw_pool d),
       asset := addr (dw_asset d),
       dex_withdraw_liquidity_data :=
         Some [(''dex'', dw_dex d),
               (''amount_1'', py_int (map_option value' (dw_amount1_out d))),
               (''amount_2'', py_int (map_option value' (dw_amount2_out d))),
               (''asset_out_1'', py_str (addr (dw_asset1_out d))),
               (''asset_out_2'', py_str (addr (dw_asset2_out d))),
               (''user_jetton_wallet_1'', py_str (addr (dw_wallet1 d))),
               (''user_jetton_wallet_2'', py_str (addr (dw_wallet2 d))),
               (''dex_jetton_wallet_1'', py_str (addr (dw_dex_jetton_wallet_1 d))),
               (''dex_wallet_1'', py_str (addr (dw_dex_wallet_1 d))),
               (''dex_wallet_2'', py_str (addr (dw_dex_wallet_2 d))),
               (''dex_jetton_wallet_2'', py_str (addr (dw_dex_jetton_wallet_2 d))),
               (''is_refund'', dw_is_refund d),
               (''lp_tokens_burnt'',
                  py_int (map_option value' (dw_lp_tokens_burnt d)))]\<rparr>"

definition fill_jvault_stake :: "jvault_stake_block \<Rightarrow> action \<Rightarrow> action" where
  "fill_jvault_stake d a =
     a\<lparr>source := addr (jvs_sender d),
       source_secondary := addr (jvs_stake_wallet d),
       destination := addr (jvs_staking_pool d),
       amount := jvs_staked_amount d,
       jvault_stake_data :=
         Some [(''period'', jvs_period d),
               (''minted_stake_jettons'', jvs_minted_stake_jettons d)]\<rparr>"

definition fill_jvault_unstake :: "jvault_unstake_block \<Rightarrow> action \<Rightarrow> action" where
  "fill_jvault_unstake d a =
     a\<lparr>source := addr (jvu_sender d),
       source_secondary := addr (jvu_stake_wallet d),
       destination := addr (jvu_staking_pool d),
       amount := jvu_unstaked_amount d\<rparr>"

definition fill_jvault_claim :: "jvault_claim_block \<Rightarrow> action \<Rightarrow> action" where
  "fill_jvault_claim d a =
     a\<lparr>source := addr (jvc_sender d),
       source_secondary := addr (jvc_stake_wallet d),
       destination := addr (jvc_staking_pool d),
       jvault_claim_data :=
         Some [(''claimed_jettons'',
                  PyList (map (\<lambda>x. py_str (addr x)) (jvc_claimed_jettons d))),
               (''claimed_amounts'', jvc_claimed_amounts d)]\<rparr>"

definition fill_multisig_create_order :: "multisig_create_order_block \<Rightarrow> action \<Rightarrow> action" where
  "fill_multisig_create_order d a =
     a\<lparr>source := addr (mc_created_by d),
       destination := addr (mc_multisig d),
       destination_secondary := addr (mc_order_contract_address d),
       multisig_create_order_data :=
         Some [(''query_id'', mc_query_id d),
               (''order_seqno'', mc_order_seqno d),
               (''is_created_by_signer'', mc_is_created_by_signer d),
               (''is_signed_by_creator'', mc_creator_approved d),
               (''creator_index'', mc_creator_index d),
               (''expiration_date'', mc_expiration_date d),
               (''order_boc'', mc_order_boc_str d)]\<rparr>"

definition fill_multisig_approve :: "multisig_approve_block \<Rightarrow> action \<Rightarrow> action" where
  "fill_multisig_approve d a =
     a\<lparr>source := addr (ma_signer d),
       destination := addr (ma_order d),
       success := ma_success d,
       multisig_approve_data :=
         Some [(''signer_index'', ma_signer_index d),
               (''exit_code'', ma_exit_code d)]\<rparr>"

definition fill_vesting_send_message :: "vesting_send_message_block \<Rightarrow> action \<Rightarrow> action" where
  "fill_vesting_send_message d a =
     a\<lparr>source := addr (vs_sender d),
       destination := addr (vs_vesting d),
       destination_secondary := addr (vs_message_destination d),
       amount := Some (value' (vs_message_value d)),
       vesting_send_message_data :=
         Some [(''query_id'', vs_query_id d),
               (''message_boc'', vs_message_boc_str d)]\<rparr>"

definition fill_vesting_add_whitelist :: "vesting_add_whitelist_block \<Rightarrow> action \<Rightarrow> action" where
  "fill_vesting_add_whitelist d a =
     a\<lparr>source := addr (va_adder d),
       destination := addr (va_vesting d),
       vesting_add_whitelist_data :=
         Some [(''query_id'', va_query_id d),
               (''accounts_added'',
                  PyList (map (\<lambda>x. py_str (addr x)) (va_accounts_added d)))]\<rparr>"

text \<open>The burnt asset is dereferenced without a test: an asset with no contract address
  raises \<^verbatim>\<open>AttributeError\<close>.\<close>

definition fill_jetton_burn_action :: "jetton_burn_block \<Rightarrow> action \<Rightarrow> py_error + action" where
  "fill_jetton_burn_action d a =
     (let a = a\<lparr>source := Some (as_str (jb_owner d)),
                source_secondary := Some (as_str (jb_jetton_wallet d))\<rparr>
      in case jetton_address (jb_asset d) of
           None \<Rightarrow> Inl AttributeError
         | Some j \<Rightarrow> Inr (a\<lparr>asset := Some (as_str j), amount := Some (value' (jb_amount d))\<rparr>))"

text \<open>The nested dictionary of a DNS change is built by assignments to its keys, read
  from the record's value by schema. Reading a key that the value does not have raises
  \<^verbatim>\<open>KeyError\<close>; an address of the wrong kind has not the method called on it.\<close>

definition fill_change_dns_record_action ::
  "dns_change_record_block \<Rightarrow> action \<Rightarrow> py_error + action" where
  "fill_change_dns_record_action d a =
     (let a = a\<lparr>source := map_option as_str (dc_source d),
                destination := Some (as_str (dc_destination d))\<rparr>;
          dns_record_data = dc_value d;
          schema = dr_schema dns_record_data;
          data0 = [(''value_schema'', PyStr schema), (''flags'', PyNone),
                   (''address'', PyNone), (''key'', PyStr (bytes_hex (dc_key d)))]
      in case (if schema = ''DNSNextResolver'' \<or> schema = ''DNSSmcAddress'' then
                 (case dr_address dns_record_data of
                    None \<Rightarrow> Inl KeyError
                  | Some (SmcAddress acc) \<Rightarrow>
                      Inr (AList.update ''address'' (PyStr (as_str acc)) data0)
                  | Some (AdnlAddress bs) \<Rightarrow> Inl AttributeError)
               else if schema = ''DNSAdnlAddress'' then
                 (case dr_address dns_record_data of
                    None \<Rightarrow> Inl KeyError
                  | Some (SmcAddress acc) \<Rightarrow> Inl AttributeError
                  | Some (AdnlAddress bs) \<Rightarrow>
                      (case dr_flags dns_record_data of
                         None \<Rightarrow> Inl KeyError
                       | Some f \<Rightarrow>
                           Inr (AList.update ''flags'' f
                                  (AList.update ''address'' (PyStr (bytes_hex bs)) data0))))
               else Inr data0) of
           Inl e \<Rightarrow> Inl e
         | Inr data1 \<Rightarrow>
             (case (if schema = ''DNSSmcAddress'' then
                      (case dr_flags dns_record_data of
                         None \<Rightarrow> Inl KeyError
                       | Some f \<Rightarrow> Inr (AList.update ''flags'' f data1))
                    else Inr data1) of
                Inl e \<Rightarrow> Inl e
              | Inr data2 \<Rightarrow>
                  (case (if schema = ''DNSText'' then
                           (case dr_dns_text dns_record_data of
                              None \<Rightarrow> Inl KeyError
                            | Some t \<Rightarrow> Inr (AList.update ''dns_text'' t data2))
                         else Inr data2) of
                     Inl e \<Rightarrow> Inl e
                   | Inr data3 \<Rightarrow> Inr (a\<lparr>change_dns_record_data := Some data3\<rparr>))))"

definition fill_delete_dns_record_action :: "dns_delete_record_block \<Rightarrow> action \<Rightarrow> action" where
  "fill_delete_dns_record_action d a =
     a\<lparr>source := map_option as_str (dd_source d),
       destination := Some (as_str (dd_destination d)),
       change_dns_record_data :=
         Some [(''value_schema'', PyNone), (''flags'', PyNone), (''address'', PyNone),
               (''key'', PyStr (bytes_hex (dd_key d)))]\<rparr>"

definition fill_tonstakers_deposit_action :: "tonstakers_deposit_block \<Rightarrow> action \<Rightarrow> action" where
  "fill_tonstakers_deposit_action d a =
     a\<lparr>type := ''stake_deposit'',
       source := addr (tsd_source d),
       destination := addr (tsd_pool d),
       amount := Some (value' (tsd_value d)),
       staking_data := Some [(''provider'', PyStr ''tonstakers'')]\<rparr>"

definition fill_dns_renew_action :: "dns_renew_block \<Rightarrow> action \<Rightarrow> action" where
  "fill_dns_renew_action d a =
     a\<lparr>source := addr (dn_source d), destination := addr (dn_destination d)\<rparr>"

definition fill_tonstakers_withdraw_request_action ::
  "tonstakers_withdraw_request_block \<Rightarrow> action \<Rightarrow> action" where
  "fill_tonstakers_withdraw_request_action d a =
     a\<lparr>source := addr (tsr_source d),
       source_secondary := addr (tsr_tsTON_wallet d),
       destination := addr (tsr_pool d),
       amount := Some (value' (tsr_tokens_burnt d)),
       type := ''stake_withdrawal_request'',
       staking_data :=
         Some [(''provider'', PyStr ''tonstakers''),
               (''ts_nft'', py_str (addr (tsr_minted_nft d)))]\<rparr>"

definition fill_tonstakers_withdraw_action :: "tonstakers_withdraw_block \<Rightarrow> action \<Rightarrow> action" where
  "fill_tonstakers_withdraw_action d a =
     a\<lparr>source := addr (tsw_stake_holder d),
       destination := addr (tsw_pool d),
       amount := Some (value' (tsw_amount d)),
       type := ''stake_withdrawal'',
       staking_data :=
         Some [(''provider'', PyStr ''tonstakers''),
               (''ts_nft'', py_str (addr (tsw_burnt_nft d)))]\<rparr>"

definition fill_subscribe_action :: "subscribe_block \<Rightarrow> action \<Rightarrow> action" where
  "fill_subscribe_action d a =
     a\<lparr>source := Some (as_str (sb_subscriber d)),
       destination := map_option as_str (sb_beneficiary d),
       destination_secondary := Some (as_str (sb_subscription d)),
       amount := Some (value' (sb_amount d))\<rparr>"

definition fill_unsubscribe_action :: "unsubscribe_block \<Rightarrow> action \<Rightarrow> action" where
  "fill_unsubscribe_action d a =
     a\<lparr>source := Some (as_str (ub_subscriber d)),
       destination := map_option as_str (ub_beneficiary d),
       destination_secondary := Some (as_str (ub_subscription d))\<rparr>"

text \<open>The amount is dereferenced whenever its key is there.\<close>

definition fill_election_action :: "election_block \<Rightarrow> action \<Rightarrow> py_error + action" where
  "fill_election_action d a =
     (let a = a\<lparr>source := Some (as_str (el_stake_holder d))\<rparr>
      in case key_attr (el_amount d) value' of
           Inl e \<Rightarrow> Inl e
         | Inr amt \<Rightarrow> Inr (a\<lparr>amount := amt\<rparr>))"

definition fill_auction_bid_action :: "auction_bid_block \<Rightarrow> action \<Rightarrow> action" where
  "fill_auction_bid_action d a =
     a\<lparr>source := Some (as_str (ab_bidder d)),
       destination := Some (as_str (ab_auction d)),
       asset_secondary := Some (as_str (ab_nft_address d)),
       asset := addr (ab_nft_collection d),
       nft_transfer_data := Some [(''nft_item_index'', ab_nft_item_index d)],
       act_value := Some (value' (ab_amount d))\<rparr>"

definition fill_dedust_deposit_liquidity_action ::
  "dedust_deposit_liquidity_block \<Rightarrow> action \<Rightarrow> action" where
  "fill_dedust_deposit_liquidity_action d a =
     a\<lparr>type := ''dex_deposit_liquidity'',
       source := addr (ddl_sender d),
       destination := addr (ddl_pool_address d),
       destination_secondary := addr (ddl_deposit_contract d),
       dex_deposit_liquidity_data :=
         Some [(''dex'', ddl_dex d),
               (''asset1'',
                  py_str (addr (map_option Account (jetton_address (ddl_asset_1 d))))),
               (''amount1'', PyInt (value' (ddl_amount_1 d))),
               (''asset2'',
                  py_str (addr (map_option Account (jetton_address (ddl_asset_2 d))))),
               (''amount2'', PyInt (value' (ddl_amount_2 d))),
               (''user_jetton_wallet_1'', py_str (addr (ddl_user_jetton_wallet_1 d))),
               (''user_jetton_wallet_2'', py_str (addr (ddl_user_jetton_wallet_2 d))),
               (''lp_tokens_minted'', PyInt (value' (ddl_lp_tokens_minted d)))]\<rparr>"

definition fill_dedust_deposit_liquidity_partial_action ::
  "dedust_deposit_liquidity_partial_block \<Rightarrow> action \<Rightarrow> action" where
  "fill_dedust_deposit_liquidity_partial_action d a =
     a\<lparr>type := ''dex_deposit_liquidity'',
       source := addr (ddp_sender d),
       destination_secondary := addr (ddp_deposit_contract d),
       dex_deposit_liquidity_data :=
         Some [(''dex'', ddp_dex d),
               (''asset1'',
                  py_str (addr (map_option Account (jetton_address (ddp_asset_1 d))))),
               (''amount1'', PyInt (value' (ddp_amount_1 d))),
               (''asset2'',
                  py_str (addr (map_option Account (jetton_address (ddp_asset_2 d))))),
               (''amount2'', PyInt (value' (ddp_amount_2 d))),
               (''user_jetton_wallet_1'', py_str (addr (ddp_user_jetton_wallet_1 d))),
               (''user_jetton_wallet_2'', py_str (addr (ddp_user_jetton_wallet_2 d))),
               (''lp_tokens_minted'', PyNone)]\<rparr>"

definition fill_jetton_mint_action :: "jetton_mint_block \<Rightarrow> action \<Rightarrow> action" where
  "fill_jetton_mint_action d a =
     a\<lparr>destination := addr (jm_to d),
       destination_secondary := addr (jm_to_jetton_wallet d),
       asset := addr (map_option Account (jetton_address (jm_asset d))),
       amount := map_option value' (jm_amount d),
       act_value := map_option value' (jm_ton_amount d)\<rparr>"

definition fill_nominator_pool_deposit_action ::
  "nominator_pool_deposit_block \<Rightarrow> action \<Rightarrow> action" where
  "fill_nominator_pool_deposit_action d a =
     a\<lparr>type := ''stake_deposit'',
       source := Some (as_str (npd_source d)),
       destination := Some (as_str (npd_pool d)),
       amount := Some (value' (npd_value d)),
       staking_data := Some [(''provider'', PyStr ''nominator'')]\<rparr>"

definition fill_nominator_pool_withdraw_request_action ::
  "nominator_pool_withdraw_request_block \<Rightarrow> action \<Rightarrow> action" where
  "fill_nominator_pool_withdraw_request_action d a =
     (let a = (case npw_payout_amount d of
                 None \<Rightarrow> a\<lparr>type := ''stake_withdrawal_request''\<rparr>
               | Some p \<Rightarrow> a\<lparr>type := ''stake_withdrawal'', amount := Some (value' p)\<rparr>)
      in a\<lparr>staking_data := Some [(''provider'', PyStr ''nominator'')],
           source := Some (as_str (npw_source d)),
           destination := Some (as_str (npw_pool d))\<rparr>)"

subsection \<open>The dispatcher and the assembler\<close>

type_synonym 'a result = "(py_error + 'a) \<times> log_entry list"

text \<open>The \<^verbatim>\<open>match\<close> statement: the normalizer of the block's class applied to the
  action, or a warning for a block of no known class.\<close>

primrec fill_action :: "block_data \<Rightarrow> block \<Rightarrow> string \<Rightarrow> action \<Rightarrow> action result" where
  "fill_action (CallContractBlock d) b tid a = (Inr (fill_call_contract_action d a), [])"
| "fill_action (ContractDeployBlock d) b tid a = (Inr (fill_call_contract_action d a), [])"
| "fill_action (TonTransferBlock d) b tid a = fill_ton_transfer_action b d a"
| "fill_action (NominatorPoolDepositBlock d) b tid a =
     (Inr (fill_nominator_pool_deposit_action d a), [])"
| "fill_action (NominatorPoolWithdrawRequestBlock d) b tid a =
     (Inr (fill_nominator_pool_withdraw_request_action d a), [])"
| "fill_action (DedustDepositLiquidityBlock d) b tid a =
     (Inr (fill_dedust_deposit_liquidity_action d a), [])"
| "fill_action (DedustDepositLiquidityPartialBlock d) b tid a =
     (Inr (fill_dedust_deposit_liquidity_partial_action d a), [])"
| "fill_action (JettonTransferBlock d) b tid a = (fill_jetton_transfer_action d a, [])"
| "fill_action (NftTransferBlock d) b tid a = (fill_nft_transfer_action d a, [])"
| "fill_action (NftDiscoveryBlock d) b tid a = (Inr (fill_nft_discovery_action d a), [])"
| "fill_action (NftMintBlock d) b tid a = (Inr (fill_nft_mint_action d a), [])"
| "fill_action (JettonBurnBlock d) b tid a = (fill_jetton_burn_action d a, [])"
| "fill_action (JettonMintBlock d) b tid a = (Inr (fill_jetton_mint_action d a), [])"
| "fill_action (JettonSwapBlock d) b tid a = (fill_jetton_swap_action d a, [])"
| "fill_action (DnsChangeRecordBlock d) b tid a = (fill_change_dns_record_action d a, [])"
| "fill_action (DnsDeleteRecordBlock d) b tid a =
     (Inr (fill_delete_dns_record_action d a), [])"
| "fill_action (DnsRenewBlock d) b tid a = (Inr (fill_dns_renew_action d a), [])"
| "fill_action (TONStakersDepositBlock d) b tid a =
     (Inr (fill_tonstakers_deposit_action d a), [])"
| "fill_action (TONStakersWithdrawRequestBlock d) b tid a =
     (Inr (fill_tonstakers_withdraw_request_action d a), [])"
| "fill_action (TONStakersWithdrawBlock d) b tid a =
     (Inr (fill_tonstakers_withdraw_action d a), [])"
| "fill_action (SubscribeBlock d) b tid a = (Inr (fill_subscribe_action d a), [])"
| "fill_action (DexDepositLiquidityBlock d) b tid a =
     (Inr (fill_dex_deposit_liquidity d a), [])"
| "fill_action (DexWithdrawLiquidityBlock d) b tid a =
     (Inr (fill_dex_withdraw_liquidity d a), [])"
| "fill_action (JVaultStakeBlock d) b tid a = (Inr (fill_jvault_stake d a), [])"
| "fill_action (JVaultUnstakeBlock d) b tid a = (Inr (fill_jvault_unstake d a), [])"
| "fill_action (JVaultClaimBlock d) b tid a = (Inr (fill_jvault_claim d a), [])"
| "fill_action (MultisigCreateOrderBlock d) b tid a =
     (Inr (fill_multisig_create_order d a), [])"
| "fill_action (MultisigApproveBlock d) b tid a = (Inr (fill_multisig_approve d a), [])"
| "fill_action (VestingSendMessageBlock d) b tid a =
     (Inr (fill_vesting_send_message d a), [])"
| "fill_action (VestingAddWhiteListBlock d) b tid a =
     (Inr (fill_vesting_add_whitelist d a), [])"
| "fill_action (UnsubscribeBlock d) b tid a = (Inr (fill_unsubscribe_action d a), [])"
| "fill_action (ElectionDepositStakeBlock d) b tid a = (fill_election_action d a, [])"
| "fill_action (ElectionRecoverStakeBlock d) b tid a = (fill_election_action d a, [])"
| "fill_action (AuctionBidBlock d) b tid a = (Inr (fill_auction_bid_action d a), [])"
| "fill_action OtherBlock b tid a =
     (Inr a, [Warning (''Unknown block type '' @ btype b @ '' for trace '' @ tid)])"

text \<open>The statements of \<^verbatim>\<open>block_to_action\<close> after the \<^verbatim>\<open>match\<close>: the four address
  fields join the accounts, the hash of the initiating node (or the empty string) joins
  the transaction hashes, the account of an initiating node that is not tick-tock joins
  the accounts, and the accounts lose their nulls and duplicates.\<close>

definition fill_accounts_and_hashes ::
  "set_order \<Rightarrow> block \<Rightarrow> string \<Rightarrow> action \<Rightarrow> action result" where
  "fill_accounts_and_hashes it b tid a =
     (let accs = accounts a @ [source a, source_secondary a, destination a,
                               destination_secondary a];
          ext = tx_hashes a;
          finish = (\<lambda>accs ext logs.
                    (Inr (a\<lparr>extended_tx_hashes := it ext,
                            accounts := it (filter (\<lambda>x. x \<noteq> None) accs)\<rparr>), logs))
      in case initiating_event_node b of
           None \<Rightarrow> finish accs ext []
         | Some n \<Rightarrow>
             (let ext = ext @ [Some (or_empty (get_tx_hash n))]
              in if is_tick_tock n then finish accs ext []
                 else (case message n of
                         None \<Rightarrow> (Inl AttributeError, [])
                       | Some m \<Rightarrow>
                           (let acc = account (msg_transaction m);
                                logs = (if acc \<notin> set accs then
                                          [Info (''Initiating transaction (''
                                                 @ fmt (get_tx_hash n)
                                                 @ '') account not in accounts. Trace id: ''
                                                 @ tid @ ''. Action id: '' @ action_id a)]
                                        else [])
                            in finish (accs @ [acc]) ext logs))))"

definition block_to_action :: "set_order \<Rightarrow> block \<Rightarrow> string \<Rightarrow> action result" where
  "block_to_action it b tid =
     (case base_block_to_action it b tid of
        Inl e \<Rightarrow> (Inl e, [])
      | Inr a \<Rightarrow>
          (case fill_action (data b) b tid a of
             (Inl e, logs) \<Rightarrow> (Inl e, logs)
           | (Inr a, logs) \<Rightarrow>
               (case fill_accounts_and_hashes it b tid a of
                  (r, logs') \<Rightarrow> (r, logs @ logs'))))"

section \<open>Notions used to state the properties\<close>

text \<open>An event node carries what the base converter dereferences: a tick-tock node its
  own transaction, any other node its message.\<close>

definition node_ok :: "event_node \<Rightarrow> bool" where
  "node_ok n = (if is_tick_tock n then tick_tock_tx n \<noteq> None else message n \<noteq> None)"

text \<open>The assembler dereferences the message of an initiating node that is not tick-tock.\<close>

definition initiating_ok :: "block \<Rightarrow> bool" where
  "initiating_ok b =
     (case initiating_event_node b of
        None \<Rightarrow> True
      | Some n \<Rightarrow> is_tick_tock n \<or> message n \<noteq> None)"

definition dns_record_ok :: "dns_record \<Rightarrow> bool" where
  "dns_record_ok r =
     (let s = dr_schema r
      in (if s = ''DNSNextResolver'' \<or> s = ''DNSSmcAddress'' then
            (case dr_address r of Some (SmcAddress acc) \<Rightarrow> True | _ \<Rightarrow> False)
          else if s = ''DNSAdnlAddress'' then
            (case dr_address r of Some (AdnlAddress bs) \<Rightarrow> dr_flags r \<noteq> None | _ \<Rightarrow> False)
          else True)
         \<and> (s = ''DNSSmcAddress'' \<longrightarrow> dr_flags r \<noteq> None)
         \<and> (s = ''DNSText'' \<longrightarrow> dr_dns_text r \<noteq> None))"

text \<open>The payload holds the values that its normalizer dereferences without a test: a
  key that is only looked up with \<^verbatim>\<open>in\<close> has no null value, a tested asset that is not the
  native currency has its contract address, a plain comment is UTF-8, and so on.\<close>

definition payload_ok :: "block_data \<Rightarrow> bool" where
  "payload_ok p =
     (case p of
        TonTransferBlock d \<Rightarrow> tt_destination d \<noteq> None
      | JettonTransferBlock d \<Rightarrow>
          jt_receiver_wallet d \<noteq> Some None
          \<and> (case jt_asset d of
             None \<Rightarrow> True
              | Some ast \<Rightarrow> is_ton ast \<or> jetton_address ast \<noteq> None)
          \<and> (case jt_comment d of
                None \<Rightarrow> True
              | Some c \<Rightarrow> jt_encrypted_comment d \<or> utf8_valid c)
      | NftTransferBlock d \<Rightarrow> \<not> (nt_is_purchase d \<and> nt_price d = Some None)
      | ElectionDepositStakeBlock d \<Rightarrow> el_amount d \<noteq> Some None
      | ElectionRecoverStakeBlock d \<Rightarrow> el_amount d \<noteq> Some None
      | JettonBurnBlock d \<Rightarrow> jetton_address (jb_asset d) \<noteq> None
      | JettonSwapBlock d \<Rightarrow>
          (js_dex d = ''stonfi_v2'' \<longrightarrow>
             js_source_asset d \<noteq> None \<and> js_destination_asset d \<noteq> None)
      | DnsChangeRecordBlock d \<Rightarrow> dns_record_ok (dc_value d)
      | _ \<Rightarrow> True)"

definition block_ok :: "block \<Rightarrow> bool" where
  "block_ok b =
     (event_nodes b \<noteq> [] \<and> list_all node_ok (event_nodes b) \<and> initiating_ok b
      \<and> payload_ok (data b))"

text \<open>What the assembler collects before it removes nulls and repetitions, and what it
  logs.\<close>

definition initiating_accounts :: "block \<Rightarrow> string option list" where
  "initiating_accounts b =
     (case initiating_event_node b of
        None \<Rightarrow> []
      | Some n \<Rightarrow>
          (if is_tick_tock n then []
           else (case message n of None \<Rightarrow> [] | Some m \<Rightarrow> [account (msg_transaction m)])))"

definition collected_hashes :: "block \<Rightarrow> action \<Rightarrow> string option list" where
  "collected_hashes b a =
     tx_hashes a @ (case initiating_event_node b of
                      None \<Rightarrow> []
                    | Some n \<Rightarrow> [Some (or_empty (get_tx_hash n))])"

definition collected_accounts :: "block \<Rightarrow> action \<Rightarrow> string option list" where
  "collected_accounts b a =
     accounts a @ [source a, source_secondary a, destination a, destination_secondary a]
     @ initiating_accounts b"

definition initiating_log :: "block \<Rightarrow> string \<Rightarrow> action \<Rightarrow> log_entry list" where
  "initiating_log b tid a =
     (case initiating_event_node b of
        None \<Rightarrow> []
      | Some n \<Rightarrow>
          (if is_tick_tock n then []
           else (case message n of
                   None \<Rightarrow> []
                 | Some m \<Rightarrow>
                     (if account (msg_transaction m)
                           \<notin> set (accounts a @ [source a, source_secondary a, destination a,
                                               destination_secondary a])
                      then [Info (''Initiating transaction ('' @ fmt (get_tx_hash n)
                                  @ '') account not in accounts. Trace id: '' @ tid
                                  @ ''. Action id: '' @ action_id a)]
                      else []))))"

text \<open>The fields of the base converter that no normalizer assigns.\<close>

definition same_base_fields :: "action \<Rightarrow> action \<Rightarrow> bool" where
  "same_base_fields a a' =
     (trace_id a' = trace_id a \<and> action_id a' = action_id a \<and> tx_hashes a' = tx_hashes a
      \<and> start_lt a' = start_lt a \<and> end_lt a' = end_lt a \<and> start_utime a' = start_utime a
      \<and> end_utime a' = end_utime a \<and> accounts a' = accounts a
      \<and> extended_tx_hashes a' = extended_tx_hashes a)"

text \<open>Two actions that differ at most in the order of their three lists, each of which
  holds the same elements without repetition.\<close>

definition same_elements :: "'a list \<Rightarrow> 'a list \<Rightarrow> bool" where
  "same_elements xs ys = (set xs = set ys \<and> distinct xs \<and> distinct ys)"

definition same_up_to_order :: "action \<Rightarrow> action \<Rightarrow> bool" where
  "same_up_to_order a a' =
     (a'\<lparr>tx_hashes := tx_hashes a, extended_tx_hashes := extended_tx_hashes a,
         accounts := accounts a\<rparr> = a
      \<and> action_id a' = action_id a
      \<and> same_elements (tx_hashes a) (tx_hashes a')
      \<and> same_elements (extended_tx_hashes a) (extended_tx_hashes a')
      \<and> same_elements (accounts a) (accounts a'))"

definition runs_agree :: "action result \<Rightarrow> action result \<Rightarrow> bool" where
  "runs_agree r r' =
     (snd r = snd r' \<and>
      (case fst r of
         Inl e \<Rightarrow> fst r' = Inl e
       | Inr a \<Rightarrow> (case fst r' of Inl e' \<Rightarrow> False | Inr a' \<Rightarrow> same_up_to_order a a')))"

text \<open>A normalizer's result with the transaction hashes replaced.\<close>

definition with_tx_hashes :: "string option list \<Rightarrow> action result \<Rightarrow> action result" where
  "with_tx_hashes x r = (map_sum id (\<lambda>a. a\<lparr>tx_hashes := x\<rparr>) (fst r), snd r)"

text \<open>\<^verbatim>\<open>d[k]\<close> on a nested payload, and a field of the action that a run returned.\<close>

definition payload_field :: "pydict option \<Rightarrow> string \<Rightarrow> pyval option" where
  "payload_field p k = (case p of None \<Rightarrow> None | Some d \<Rightarrow> map_of d k)"

definition returned :: "(action \<Rightarrow> 'a) \<Rightarrow> action result \<Rightarrow> 'a option" where
  "returned f r = (case fst r of Inl e \<Rightarrow> None | Inr a \<Rightarrow> Some (f a))"

text \<open>Two iteration orders that a set of strings can have in two interpreter processes.\<close>

definition order_a :: set_order where
  "order_a xs = remdups xs"

definition order_b :: set_order where
  "order_b xs = rev (remdups xs)"

section \<open>Example inputs\<close>

definition ex_msg_node :: "string \<Rightarrow> string \<Rightarrow> int \<Rightarrow> string option \<Rightarrow> event_node" where
  "ex_msg_node h acc l txh =
     \<lparr>message = Some \<lparr>msg_hash = h, msg_transaction = \<lparr>account = Some acc\<rparr>,
                        msg_trace_id = ''trace-1''\<rparr>,
      is_tick_tock = False, tick_tock_tx = None, get_lt = l, get_tx_hash = txh\<rparr>"

definition ex_tick_node :: "string \<Rightarrow> int \<Rightarrow> string option \<Rightarrow> event_node" where
  "ex_tick_node acc l txh =
     \<lparr>message = None, is_tick_tock = True, tick_tock_tx = Some \<lparr>account = Some acc\<rparr>,
      get_lt = l, get_tx_hash = txh\<rparr>"

text \<open>Three nodes; the second and the third share the least logical time.\<close>

definition ex_nodes :: "event_node list" where
  "ex_nodes = [ex_msg_node ''mA'' ''alice'' 5 (Some ''hA''),
               ex_tick_node ''bob'' 3 (Some ''hB''),
               ex_msg_node ''mC'' ''alice'' 3 None]"

definition ex_block :: "string \<Rightarrow> block_data \<Rightarrow> event_node option \<Rightarrow> block" where
  "ex_block ty d ini =
     \<lparr>btype = ty, event_nodes = ex_nodes, data = d, min_lt = 3, max_lt = 5,
      min_utime = 100, max_utime = 101, failed = False, initiating_event_node = ini\<rparr>"

text \<open>An initiating node outside the node set: not tick-tock, with no transaction hash
  and an account that no event node has.\<close>

definition ex_initiating :: event_node where
  "ex_initiating = ex_msg_node ''mI'' ''carol'' 1 None"

text \<open>A contract call with a null destination.\<close>

definition ex_call_block :: block where
  "ex_call_block =
     ex_block ''call_contract''
       (CallContractBlock
          \<lparr>cc_opcode = Some 7, cc_value = Amount 10, cc_source = Some (AccountId ''alice''),
           cc_destination = None\<rparr>)
       (Some ex_initiating)"

definition ex_unknown_block :: block where
  "ex_unknown_block = ex_block ''mystery'' OtherBlock (Some ex_initiating)"

text \<open>A block of no known class with no event node, and one whose initiating node is
  neither tick-tock nor carries a message.\<close>

definition ex_no_nodes_block :: block where
  "ex_no_nodes_block = ex_unknown_block\<lparr>event_nodes := []\<rparr>"

definition ex_bad_initiating_block :: block where
  "ex_bad_initiating_block =
     ex_unknown_block\<lparr>initiating_event_node := Some (ex_initiating\<lparr>message := None\<rparr>)\<rparr>"

definition ex_nominator_block :: "amount option \<Rightarrow> block" where
  "ex_nominator_block p =
     ex_block ''nominator_pool_withdraw_request''
       (NominatorPoolWithdrawRequestBlock
          \<lparr>npw_payout_amount = p, npw_source = AccountId ''alice'',
           npw_pool = AccountId ''pool''\<rparr>)
       None"

text \<open>A native-currency transfer whose comment, flagged as encrypted, has a zero
  character in it.\<close>

definition ex_ton_transfer :: "account_id option \<Rightarrow> ton_transfer_block" where
  "ex_ton_transfer dst =
     \<lparr>tt_value = Some 5, tt_source = AccountId ''alice'', tt_destination = dst,
      tt_comment = Some [CHR ''a'', CHR 0x00, CHR ''b''], tt_encrypted = PyBool True\<rparr>"

definition ex_ton_block :: "account_id option \<Rightarrow> block" where
  "ex_ton_block dst = ex_block ''ton_transfer'' (TonTransferBlock (ex_ton_transfer dst)) None"

definition ex_jetton_transfer :: "bytes \<Rightarrow> bool \<Rightarrow> jetton_transfer_block" where
  "ex_jetton_transfer c enc =
     \<lparr>jt_sender = AccountId ''alice'', jt_sender_wallet = AccountId ''alice-wallet'',
      jt_receiver = AccountId ''dave'', jt_receiver_wallet = None, jt_amount = Amount 100,
      jt_asset = Some \<lparr>is_ton = False, jetton_address = Some (AccountId ''jetton'')\<rparr>,
      jt_comment = Some c, jt_encrypted_comment = enc, jt_query_id = PyInt 1,
      jt_response_address = None, jt_forward_amount = Amount 0,
      jt_custom_payload = PyNone, jt_forward_payload = PyNone\<rparr>"

definition ex_jetton_block :: "bytes \<Rightarrow> bool \<Rightarrow> block" where
  "ex_jetton_block c enc =
     ex_block ''jetton_transfer'' (JettonTransferBlock (ex_jetton_transfer c enc)) None"

text \<open>A swap with legs in the jettons \<open>jetA\<close> and \<open>jetB\<close>, for a given exchange and
  given explicit asset fields.\<close>

definition ex_jetton :: "string \<Rightarrow> addr_ref" where
  "ex_jetton j = AssetRef \<lparr>is_ton = False, jetton_address = Some (AccountId j)\<rparr>"

definition ex_leg :: "string \<Rightarrow> string \<Rightarrow> string \<Rightarrow> swap_transfer" where
  "ex_leg src dst j =
     \<lparr>st_amount = Amount 9, st_source = Some (Account (AccountId src)),
      st_source_jetton_wallet = None, st_destination = Some (Account (AccountId dst)),
      st_destination_jetton_wallet = None, st_asset = Some (ex_jetton j)\<rparr>"

definition ex_swap ::
  "string \<Rightarrow> addr_ref option option \<Rightarrow> addr_ref option option \<Rightarrow> jetton_swap_block" where
  "ex_swap dex sa da =
     \<lparr>js_dex = dex, js_sender = Some (Account (AccountId ''alice'')),
      js_dex_incoming_transfer = ex_leg ''alice'' ''pool'' ''jetA'',
      js_dex_outgoing_transfer = ex_leg ''pool'' ''alice'' ''jetB'',
      js_source_asset = sa, js_destination_asset = da, js_destination_wallet = None\<rparr>"

definition ex_swap_block ::
  "string \<Rightarrow> addr_ref option option \<Rightarrow> addr_ref option option \<Rightarrow> block" where
  "ex_swap_block dex sa da =
     ex_block ''jetton_swap'' (JettonSwapBlock (ex_swap dex sa da)) None"

section \<open>The identity deriver\<close>

text \<open>The running minimum either stays the starting element, and then nothing in the list
  is smaller, or it is an element of the list that is strictly smaller than everything
  before it.\<close>

lemma min_from_first:
  "(min_from key m xs = m \<and> (\<forall>x\<in>set xs. key m \<le> key x)) \<or>
   (\<exists>pre post. xs = pre @ min_from key m xs # post \<and> key (min_from key m xs) < key m \<and>
      (\<forall>x\<in>set pre. key (min_from key m xs) < key x) \<and>
      (\<forall>x\<in>set post. key (min_from key m xs) \<le> key x))"
proof (induction xs arbitrary: m)
  case Nil
  show ?case by simp
next
  case (Cons x xs)
  let ?m' = "if key x < key m then x else m"
  let ?r = "min_from key ?m' xs"
  have r: "min_from key m (x # xs) = ?r" by simp
  from Cons.IH [of ?m'] consider
      (stay) "?r = ?m'" "\<forall>y\<in>set xs. key ?m' \<le> key y"
    | (move) pre post where "xs = pre @ ?r # post" "key ?r < key ?m'"
        "\<forall>y\<in>set pre. key ?r < key y" "\<forall>y\<in>set post. key ?r \<le> key y"
    by blast
  then show ?case
  proof cases
    case stay
    show ?thesis
    proof (cases "key x < key m")
      case True
      with stay have "x # xs = [] @ ?r # xs" "key ?r < key m" "\<forall>y\<in>set xs. key ?r \<le> key y"
        by simp_all
      then show ?thesis unfolding r by (metis empty_iff empty_set)
    next
      case False
      with stay show ?thesis unfolding r by auto
    qed
  next
    case move
    have "x # xs = (x # pre) @ ?r # post" using move(1) by simp
    moreover have "key ?r < key m" using move(2) by (simp split: if_splits)
    moreover have "\<forall>y\<in>set (x # pre). key ?r < key y"
      using move(2,3) by (auto split: if_splits)
    ultimately show ?thesis unfolding r using move(4) by blast
  qed
qed

lemma py_min_first:
  assumes "xs \<noteq> []"
  shows "\<exists>pre r post. xs = pre @ r # post \<and> py_min key xs = Inr r \<and>
           (\<forall>x\<in>set pre. key r < key x) \<and> (\<forall>x\<in>set post. key r \<le> key x)"
proof -
  from assms obtain m r where xs: "xs = m # r" by (cases xs) auto
  let ?v = "min_from key m r"
  have v: "py_min key xs = Inr ?v" by (simp add: py_min_def xs)
  from min_from_first [of key m r] show ?thesis
  proof (elim disjE conjE exE)
    assume "?v = m" "\<forall>x\<in>set r. key m \<le> key x"
    then have "xs = [] @ ?v # r" "\<forall>x\<in>set r. key ?v \<le> key x" by (simp_all add: xs)
    with v show ?thesis by (metis empty_iff empty_set)
  next
    fix pre post
    assume a: "r = pre @ ?v # post" "key ?v < key m"
      "\<forall>x\<in>set pre. key ?v < key x" "\<forall>x\<in>set post. key ?v \<le> key x"
    then have "xs = (m # pre) @ ?v # post" "\<forall>x\<in>set (m # pre). key ?v < key x"
      by (simp_all add: xs)
    with v a(4) show ?thesis by blast
  qed
qed

lemma calc_action_id_no_nodes: "event_nodes b = [] \<Longrightarrow> calc_action_id b = Inl ValueError"
  by (simp add: calc_action_id_def py_min_def)

text \<open>
  Claim C1. For a block with at least one event node, the action id is computed from the
  root node, which is the first node of least logical time: every node before it has a
  strictly greater logical time and no node after it has a smaller one. The key is the
  root's message hash if the root carries a message, otherwise its transaction hash, or
  the empty string if that is unavailable; the operation type tag is appended, and the id
  is the base64 encoding of the SHA-256 digest of the key. (With no event node there is
  no root: \<^verbatim>\<open>min\<close> raises \<^verbatim>\<open>ValueError\<close>, see \<open>calc_action_id_no_nodes\<close>.)
\<close>

theorem calc_action_id_root:
  assumes "event_nodes b \<noteq> []"
  shows "\<exists>pre root post.
           event_nodes b = pre @ root # post \<and>
           (\<forall>n\<in>set pre. get_lt root < get_lt n) \<and>
           (\<forall>n\<in>set post. get_lt root \<le> get_lt n) \<and>
           calc_action_id b =
             Inr (b64encode (sha256 (str_encode
                    ((case message root of
                        Some m \<Rightarrow> msg_hash m
                      | None \<Rightarrow> (case get_tx_hash root of Some h \<Rightarrow> h | None \<Rightarrow> ''''))
                     @ btype b))))"
proof -
  from py_min_first [OF assms, of get_lt] obtain pre root post where
    d: "event_nodes b = pre @ root # post" "py_min get_lt (event_nodes b) = Inr root"
       "\<forall>n\<in>set pre. get_lt root < get_lt n" "\<forall>n\<in>set post. get_lt root \<le> get_lt n"
    by blast
  have "or_empty (get_tx_hash root) = (case get_tx_hash root of Some h \<Rightarrow> h | None \<Rightarrow> '''')"
    by (simp add: or_empty_def split: option.splits)
  then have "calc_action_id b =
      Inr (b64encode (sha256 (str_encode
             ((case message root of
                 Some m \<Rightarrow> msg_hash m
               | None \<Rightarrow> (case get_tx_hash root of Some h \<Rightarrow> h | None \<Rightarrow> ''''))
              @ btype b))))"
    by (simp add: calc_action_id_def d(2) split: option.splits)
  with d show ?thesis by blast
qed

text \<open>On the example nodes the root is the tick-tock node, the first of the two nodes of
  logical time 3; it carries no message, so the key starts with its transaction hash.\<close>

theorem calc_action_id_root_witness:
  "event_nodes (ex_block ''ton_transfer'' OtherBlock None) \<noteq> [] \<and>
   (\<exists>pre root post.
      event_nodes (ex_block ''ton_transfer'' OtherBlock None) = pre @ root # post \<and>
      (\<forall>n\<in>set pre. get_lt root < get_lt n) \<and>
      (\<forall>n\<in>set post. get_lt root \<le> get_lt n) \<and>
      calc_action_id (ex_block ''ton_transfer'' OtherBlock None) =
        Inr (b64encode (sha256 (str_encode
               ((case message root of
                   Some m \<Rightarrow> msg_hash m
                 | None \<Rightarrow> (case get_tx_hash root of Some h \<Rightarrow> h | None \<Rightarrow> ''''))
                @ btype (ex_block ''ton_transfer'' OtherBlock None))))))"
proof -
  have h: "event_nodes (ex_block ''ton_transfer'' OtherBlock None) \<noteq> []"
    by (simp add: ex_block_def ex_nodes_def)
  show ?thesis by (rule conjI [OF h calc_action_id_root [OF h]])
qed

text \<open>The digest is SHA-256: the test vector of the standard, and the key of the example.\<close>

lemma sha256_abc:
  "bytes_hex (sha256 (str_encode ''abc''))
     = ''ba7816bf8f01cfea414140de5dae2223b00361a396177a9cb410ff61f20015ad''"
  by code_simp

lemma sha256_example:
  "sha256 (str_encode ''hBton_transfer'') =
     [0x01, 0xC5, 0x93, 0xF8, 0x6A, 0xB5, 0xC5, 0xCF,
      0x06, 0x4E, 0x86, 0x90, 0x25, 0x94, 0xEF, 0xDE,
      0x03, 0x24, 0x40, 0x49, 0x16, 0xD5, 0x0D, 0x4D,
      0x95, 0x0E, 0x5B, 0xC8, 0xC4, 0x02, 0x4E, 0x97]"
  by code_simp

lemma calc_action_id_example:
  "calc_action_id (ex_block ''ton_transfer'' OtherBlock None)
     = Inr ''AcWT+Gq1xc8GToaQJZTv3gMkQEkW1Q1NlQ5byMQCTpc=''"
  by (simp add: calc_action_id_def py_min_def ex_block_def ex_nodes_def ex_msg_node_def
      ex_tick_node_def or_empty_def sha256_example b64_char_def)

section \<open>The structure of a run\<close>

lemma order_a_ok: "set_order_ok order_a"
  by (simp add: set_order_ok_def order_a_def)

lemma order_b_ok: "set_order_ok order_b"
  by (simp add: set_order_ok_def order_b_def)

lemmas fill_defs =
  fill_call_contract_action_def
  fill_nft_discovery_action_def fill_nft_mint_action_def
  fill_dex_deposit_liquidity_def fill_dex_withdraw_liquidity_def fill_jvault_stake_def
  fill_jvault_unstake_def fill_jvault_claim_def fill_multisig_create_order_def
  fill_multisig_approve_def fill_vesting_send_message_def fill_vesting_add_whitelist_def
  fill_delete_dns_record_action_def
  fill_tonstakers_deposit_action_def fill_dns_renew_action_def
  fill_tonstakers_withdraw_request_action_def fill_tonstakers_withdraw_action_def
  fill_subscribe_action_def fill_unsubscribe_action_def
  fill_auction_bid_action_def fill_dedust_deposit_liquidity_action_def
  fill_dedust_deposit_liquidity_partial_action_def fill_jetton_mint_action_def
  fill_nominator_pool_deposit_action_def fill_nominator_pool_withdraw_request_action_def

subsection \<open>No normalizer touches the hashes, the accounts or the identity\<close>

lemma frame_ton:
  "fill_ton_transfer_action b d a = (Inr a', l) \<Longrightarrow> same_base_fields a a'"
  by (auto simp: fill_ton_transfer_action_def same_base_fields_def Let_def
      split: option.splits list.splits)

lemma frame_jetton: "fill_jetton_transfer_action d a = Inr a' \<Longrightarrow> same_base_fields a a'"
  by (auto simp: fill_jetton_transfer_action_def same_base_fields_def Let_def
      split: sum.splits)

lemma frame_nft: "fill_nft_transfer_action d a = Inr a' \<Longrightarrow> same_base_fields a a'"
  by (auto simp: fill_nft_transfer_action_def same_base_fields_def Let_def
      split: sum.splits option.splits)

lemma frame_election: "fill_election_action d a = Inr a' \<Longrightarrow> same_base_fields a a'"
  by (auto simp: fill_election_action_def same_base_fields_def Let_def split: sum.splits)

lemma frame_burn: "fill_jetton_burn_action d a = Inr a' \<Longrightarrow> same_base_fields a a'"
  by (auto simp: fill_jetton_burn_action_def same_base_fields_def Let_def
      split: option.splits)

lemma frame_swap: "fill_jetton_swap_action d a = Inr a' \<Longrightarrow> same_base_fields a a'"
  by (auto simp: fill_jetton_swap_action_def same_base_fields_def Let_def
      split: sum.splits option.splits if_splits)

lemma frame_dns: "fill_change_dns_record_action d a = Inr a' \<Longrightarrow> same_base_fields a a'"
  by (auto simp: fill_change_dns_record_action_def same_base_fields_def Let_def
      split: sum.splits)

lemma fill_action_frame: "fill_action d b t a = (Inr a', l) \<Longrightarrow> same_base_fields a a'"
  by (cases d)
     (auto dest: frame_ton frame_jetton frame_nft frame_election frame_burn frame_swap
             frame_dns
           simp: same_base_fields_def fill_defs Let_def split: option.splits)

subsection \<open>The three stages\<close>

lemma block_to_action_Inr:
  "block_to_action it b t = (Inr a, logs) \<longleftrightarrow>
   (\<exists>a0 a1 l1 l2. base_block_to_action it b t = Inr a0 \<and>
      fill_action (data b) b t a0 = (Inr a1, l1) \<and>
      fill_accounts_and_hashes it b t a1 = (Inr a, l2) \<and> logs = l1 @ l2)"
  by (auto simp: block_to_action_def split: sum.splits prod.splits)

lemma base_block_to_action_Inr:
  "base_block_to_action it b t = Inr a0 \<longleftrightarrow>
   (\<exists>aid accs. calc_action_id b = Inr aid \<and> node_accounts (event_nodes b) = Inr accs \<and>
      a0 = (new_action t (btype b) aid (it (map get_tx_hash (event_nodes b)))
              (min_lt b) (max_lt b) (min_utime b) (max_utime b) (\<not> failed b))
           \<lparr>accounts := accs\<rparr>)"
  by (auto simp: base_block_to_action_def Let_def split: sum.splits)

text \<open>The assembler, as one equation: it fails only on an initiating node that is not
  tick-tock and has no message.\<close>

lemma fill_accounts_and_hashes_eq:
  "fill_accounts_and_hashes it b t a =
     ((if initiating_ok b then
         Inr (a\<lparr>extended_tx_hashes := it (collected_hashes b a),
                accounts := it (filter (\<lambda>x. x \<noteq> None) (collected_accounts b a))\<rparr>)
       else Inl AttributeError),
      initiating_log b t a)"
proof (cases "initiating_event_node b")
  case None
  then show ?thesis
    by (simp add: fill_accounts_and_hashes_def initiating_ok_def collected_hashes_def
        collected_accounts_def initiating_accounts_def initiating_log_def)
next
  case (Some n)
  show ?thesis
  proof (cases "is_tick_tock n")
    case True
    with Some show ?thesis
      by (simp add: fill_accounts_and_hashes_def initiating_ok_def collected_hashes_def
          collected_accounts_def initiating_accounts_def initiating_log_def)
  next
    case False
    with Some show ?thesis
      by (cases "message n")
         (simp_all add: fill_accounts_and_hashes_def initiating_ok_def collected_hashes_def
            collected_accounts_def initiating_accounts_def initiating_log_def Let_def)
  qed
qed

lemma block_to_action_shape:
  assumes "block_to_action it b t = (Inr a, logs)"
  obtains a0 a1 l1 where
    "base_block_to_action it b t = Inr a0"
    "fill_action (data b) b t a0 = (Inr a1, l1)"
    "logs = l1 @ initiating_log b t a1"
    "initiating_ok b"
    "a = a1\<lparr>extended_tx_hashes := it (collected_hashes b a1),
           accounts := it (filter (\<lambda>x. x \<noteq> None) (collected_accounts b a1))\<rparr>"
    "same_base_fields a0 a1"
proof -
  from assms obtain a0 a1 l1 l2 where
    s: "base_block_to_action it b t = Inr a0" "fill_action (data b) b t a0 = (Inr a1, l1)"
       "fill_accounts_and_hashes it b t a1 = (Inr a, l2)" "logs = l1 @ l2"
    unfolding block_to_action_Inr by blast
  from s(3) have ok: "initiating_ok b" and l2: "l2 = initiating_log b t a1"
    and a: "a = a1\<lparr>extended_tx_hashes := it (collected_hashes b a1),
           accounts := it (filter (\<lambda>x. x \<noteq> None) (collected_accounts b a1))\<rparr>"
    unfolding fill_accounts_and_hashes_eq by (simp_all split: if_splits)
  show thesis
    using that [OF s(1,2) _ ok a fill_action_frame [OF s(2)]] s(4) l2 by simp
qed

lemma base_tx_hashes:
  "base_block_to_action it b t = Inr a0 \<Longrightarrow>
   tx_hashes a0 = it (map get_tx_hash (event_nodes b))"
  by (auto simp: base_block_to_action_Inr new_action_def)

lemma returned_tx_hashes:
  assumes "block_to_action it b t = (Inr a, logs)"
  shows "tx_hashes a = it (map get_tx_hash (event_nodes b))"
proof -
  from assms obtain a0 a1 where
    "base_block_to_action it b t = Inr a0" "same_base_fields a0 a1"
    "a = a1\<lparr>extended_tx_hashes := it (collected_hashes b a1),
           accounts := it (filter (\<lambda>x. x \<noteq> None) (collected_accounts b a1))\<rparr>"
    by (rule block_to_action_shape)
  then show ?thesis by (simp add: base_tx_hashes same_base_fields_def)
qed

subsection \<open>When a run returns\<close>

lemma node_accounts_ok:
  "list_all node_ok ns \<Longrightarrow> \<exists>accs. node_accounts ns = Inr accs"
  by (induction ns) (auto simp: node_ok_def node_account_def split: if_splits)

lemma base_returns:
  assumes "event_nodes b \<noteq> []" and "list_all node_ok (event_nodes b)"
  shows "\<exists>a0. base_block_to_action it b t = Inr a0"
proof -
  from py_min_first [OF assms(1), of get_lt] obtain r where
    "py_min get_lt (event_nodes b) = Inr r" by blast
  then obtain aid where "calc_action_id b = Inr aid"
    by (simp add: calc_action_id_def Let_def)
  moreover from node_accounts_ok [OF assms(2)] obtain accs where
    "node_accounts (event_nodes b) = Inr accs" ..
  ultimately show ?thesis unfolding base_block_to_action_Inr by blast
qed

lemma ton_returns:
  "tt_destination d \<noteq> None \<Longrightarrow> \<exists>a' l. fill_ton_transfer_action b d a = (Inr a', l)"
  by (auto simp: fill_ton_transfer_action_def Let_def)

lemma jetton_returns:
  assumes "payload_ok (JettonTransferBlock d)"
  shows "\<exists>a'. fill_jetton_transfer_action d a = Inr a'"
proof -
  from assms have "\<exists>w. key_attr (jt_receiver_wallet d) as_str = Inr w"
    by (auto simp: payload_ok_def key_attr_def split: option.splits)
  moreover from assms have "\<exists>ast. jetton_transfer_asset (jt_asset d) = Inr ast"
    by (cases "jt_asset d") (auto simp: payload_ok_def jetton_transfer_asset_def)
  moreover from assms have
    "\<exists>c. jetton_transfer_comment (jt_comment d) (jt_encrypted_comment d) = Inr c"
    by (cases "jt_comment d")
       (auto simp: payload_ok_def jetton_transfer_comment_def bytes_decode_def)
  ultimately show ?thesis by (auto simp: fill_jetton_transfer_action_def Let_def)
qed

lemma nft_returns:
  assumes "payload_ok (NftTransferBlock d)"
  shows "\<exists>a'. fill_nft_transfer_action d a = Inr a'"
proof -
  from assms have
    "\<exists>p. (if nt_is_purchase d then key_attr (nt_price d) value' else Inr None) = Inr p"
    by (auto simp: payload_ok_def key_attr_def split: option.splits)
  then show ?thesis by (auto simp: fill_nft_transfer_action_def Let_def)
qed

lemma election_returns:
  assumes "el_amount d \<noteq> Some None"
  shows "\<exists>a'. fill_election_action d a = Inr a'"
proof -
  from assms have "\<exists>x. key_attr (el_amount d) value' = Inr x"
    by (auto simp: key_attr_def split: option.splits)
  then show ?thesis by (auto simp: fill_election_action_def Let_def)
qed

lemma burn_returns:
  "jetton_address (jb_asset d) \<noteq> None \<Longrightarrow> \<exists>a'. fill_jetton_burn_action d a = Inr a'"
  by (auto simp: fill_jetton_burn_action_def Let_def)

lemma swap_returns:
  assumes "payload_ok (JettonSwapBlock d)"
  shows "\<exists>a'. fill_jetton_swap_action d a = Inr a'"
proof (cases "js_dex d = ''stonfi_v2''")
  case True
  with assms obtain sa da where "js_source_asset d = Some sa" "js_destination_asset d = Some da"
    by (auto simp: payload_ok_def)
  with True show ?thesis by (simp add: fill_jetton_swap_action_def Let_def)
next
  case False
  then show ?thesis by (simp add: fill_jetton_swap_action_def Let_def)
qed

lemma dns_returns:
  assumes "dns_record_ok (dc_value d)"
  shows "\<exists>a'. fill_change_dns_record_action d a = Inr a'"
  using assms
  by (auto simp: dns_record_ok_def fill_change_dns_record_action_def Let_def
      split: option.splits dns_address.splits if_splits)

lemma fill_action_returns:
  "payload_ok d \<Longrightarrow> \<exists>a' l. fill_action d b t a = (Inr a', l)"
proof (cases d)
  case (TonTransferBlock x)
  then show "payload_ok d \<Longrightarrow> ?thesis" using ton_returns [of x b a]
    by (simp add: payload_ok_def)
next
  case (JettonTransferBlock x)
  then show "payload_ok d \<Longrightarrow> ?thesis" using jetton_returns [of x a] by simp
next
  case (NftTransferBlock x)
  then show "payload_ok d \<Longrightarrow> ?thesis" using nft_returns [of x a] by simp
next
  case (ElectionDepositStakeBlock x)
  then show "payload_ok d \<Longrightarrow> ?thesis" using election_returns [of x a]
    by (simp add: payload_ok_def)
next
  case (ElectionRecoverStakeBlock x)
  then show "payload_ok d \<Longrightarrow> ?thesis" using election_returns [of x a]
    by (simp add: payload_ok_def)
next
  case (JettonBurnBlock x)
  then show "payload_ok d \<Longrightarrow> ?thesis" using burn_returns [of x a]
    by (simp add: payload_ok_def)
next
  case (JettonSwapBlock x)
  then show "payload_ok d \<Longrightarrow> ?thesis" using swap_returns [of x a] by simp
next
  case (DnsChangeRecordBlock x)
  then show "payload_ok d \<Longrightarrow> ?thesis" using dns_returns [of x a]
    by (simp add: payload_ok_def)
qed simp_all

lemma block_ok_returns:
  assumes "block_ok b"
  shows "\<exists>a logs. block_to_action it b t = (Inr a, logs)"
proof -
  from assms have n: "event_nodes b \<noteq> []" "list_all node_ok (event_nodes b)"
    and i: "initiating_ok b" and p: "payload_ok (data b)"
    by (simp_all add: block_ok_def)
  from base_returns [OF n] obtain a0 where "base_block_to_action it b t = Inr a0" ..
  moreover from fill_action_returns [OF p] obtain a1 l1 where
    "fill_action (data b) b t a0 = (Inr a1, l1)" by blast
  moreover from i obtain a where
    "fill_accounts_and_hashes it b t a1 = (Inr a, initiating_log b t a1)"
    by (simp add: fill_accounts_and_hashes_eq)
  ultimately show ?thesis unfolding block_to_action_Inr by blast
qed

subsection \<open>When a run raises\<close>

text \<open>The conditions of \<open>block_ok\<close> are also necessary: a run that returns an action has
  read every event node, the initiating node and the payload.\<close>

lemma node_accounts_Inr:
  "node_accounts ns = Inr accs \<Longrightarrow> list_all node_ok ns"
  by (induction ns arbitrary: accs)
     (auto simp: node_ok_def node_account_def split: if_splits option.splits sum.splits)

lemma ton_Inr: "fill_ton_transfer_action b d a = (Inr a', l) \<Longrightarrow> tt_destination d \<noteq> None"
  by (auto simp: fill_ton_transfer_action_def Let_def split: option.splits list.splits)

lemma jetton_Inr:
  "fill_jetton_transfer_action d a = Inr a' \<Longrightarrow> payload_ok (JettonTransferBlock d)"
  by (auto simp: fill_jetton_transfer_action_def jetton_transfer_asset_def
      jetton_transfer_comment_def bytes_decode_def payload_ok_def key_attr_def Let_def
      split: sum.splits option.splits if_splits)

lemma nft_Inr:
  "fill_nft_transfer_action d a = Inr a' \<Longrightarrow> payload_ok (NftTransferBlock d)"
  by (auto simp: fill_nft_transfer_action_def payload_ok_def key_attr_def Let_def
      split: sum.splits if_splits)

lemma election_Inr: "fill_election_action d a = Inr a' \<Longrightarrow> el_amount d \<noteq> Some None"
  by (auto simp: fill_election_action_def key_attr_def Let_def split: sum.splits)

lemma burn_Inr: "fill_jetton_burn_action d a = Inr a' \<Longrightarrow> jetton_address (jb_asset d) \<noteq> None"
  by (auto simp: fill_jetton_burn_action_def Let_def split: option.splits)

lemma swap_Inr: "fill_jetton_swap_action d a = Inr a' \<Longrightarrow> payload_ok (JettonSwapBlock d)"
  by (auto simp: fill_jetton_swap_action_def payload_ok_def Let_def
      split: sum.splits option.splits if_splits)

lemma dns_Inr: "fill_change_dns_record_action d a = Inr a' \<Longrightarrow> dns_record_ok (dc_value d)"
  by (auto simp: fill_change_dns_record_action_def dns_record_ok_def Let_def
      split: sum.splits option.splits dns_address.splits if_splits)

lemma fill_action_Inr: "fill_action d b t a = (Inr a', l) \<Longrightarrow> payload_ok d"
  by (cases d)
     (auto dest: ton_Inr jetton_Inr nft_Inr election_Inr burn_Inr swap_Inr dns_Inr
           simp: payload_ok_def)

lemma block_to_action_returns_iff:
  "(\<exists>a logs. block_to_action it b t = (Inr a, logs)) \<longleftrightarrow> block_ok b"
proof
  assume "\<exists>a logs. block_to_action it b t = (Inr a, logs)"
  then obtain a logs where "block_to_action it b t = (Inr a, logs)" by blast
  then obtain a0 a1 l1 where
    s: "base_block_to_action it b t = Inr a0" "fill_action (data b) b t a0 = (Inr a1, l1)"
       "initiating_ok b"
    by (rule block_to_action_shape)
  from s(1) obtain aid accs where
    "calc_action_id b = Inr aid" "node_accounts (event_nodes b) = Inr accs"
    unfolding base_block_to_action_Inr by blast
  then have "event_nodes b \<noteq> []" "list_all node_ok (event_nodes b)"
    using calc_action_id_no_nodes [of b] node_accounts_Inr by auto
  with s(3) fill_action_Inr [OF s(2)] show "block_ok b" by (simp add: block_ok_def)
next
  assume "block_ok b"
  then show "\<exists>a logs. block_to_action it b t = (Inr a, logs)" by (rule block_ok_returns)
qed

section \<open>Properties of the returned action\<close>

lemma returned_eq: "r = (Inr a, l) \<Longrightarrow> returned f r = Some (f a)"
  by (simp add: returned_def)

lemma ex_nodes_ok: "ex_nodes \<noteq> [] \<and> list_all node_ok ex_nodes"
  by (simp add: ex_nodes_def ex_msg_node_def ex_tick_node_def node_ok_def)

lemma ex_block_ok:
  "payload_ok d \<Longrightarrow> ini = None \<or> ini = Some ex_initiating \<Longrightarrow> block_ok (ex_block ty d ini)"
  using ex_nodes_ok
  by (auto simp: block_ok_def ex_block_def initiating_ok_def ex_initiating_def
      ex_msg_node_def)

lemma ex_call_block_ok: "block_ok ex_call_block"
  unfolding ex_call_block_def by (rule ex_block_ok) (simp_all add: payload_ok_def)

lemma ex_unknown_block_ok: "block_ok ex_unknown_block"
  unfolding ex_unknown_block_def by (rule ex_block_ok) (simp_all add: payload_ok_def)

lemma ex_nominator_block_ok: "block_ok (ex_nominator_block p)"
  unfolding ex_nominator_block_def by (rule ex_block_ok) (simp_all add: payload_ok_def)

subsection \<open>Faults\<close>

lemma no_event_nodes_raises:
  "event_nodes b = [] \<Longrightarrow> block_to_action it b t = (Inl ValueError, [])"
  by (simp add: block_to_action_def base_block_to_action_def calc_action_id_no_nodes)

lemma ton_transfer_null_destination_raises:
  assumes "data b = TonTransferBlock d" and "tt_destination d = None"
  shows "\<exists>e. fst (block_to_action it b t) = Inl e"
proof (cases "base_block_to_action it b t")
  case (Inl e)
  then show ?thesis by (simp add: block_to_action_def)
next
  case (Inr a0)
  have "\<exists>e l. fill_ton_transfer_action b d a0 = (Inl e, l)"
    using assms(2)
    by (auto simp: fill_ton_transfer_action_def Let_def split: list.splits option.splits)
  with Inr assms(1) show ?thesis by (auto simp: block_to_action_def)
qed




subsection \<open>Accounts and hashes\<close>

text \<open>
  Claim C4. The accounts of every action that \<^verbatim>\<open>block_to_action\<close> returns hold no null
  and no entry twice.
\<close>

theorem accounts_hygiene:
  assumes "set_order_ok it" and "block_to_action it b t = (Inr a, logs)"
  shows "None \<notin> set (accounts a) \<and> distinct (accounts a)"
proof -
  from assms(2) obtain a1 where
    "a = a1\<lparr>extended_tx_hashes := it (collected_hashes b a1),
           accounts := it (filter (\<lambda>x. x \<noteq> None) (collected_accounts b a1))\<rparr>"
    by (rule block_to_action_shape)
  then have acc: "accounts a = it (filter (\<lambda>x. x \<noteq> None) (collected_accounts b a1))"
    by simp
  from assms(1) have "set (accounts a) = set (filter (\<lambda>x. x \<noteq> None) (collected_accounts b a1))"
    and "distinct (accounts a)"
    unfolding acc set_order_ok_def by blast+
  then show ?thesis by simp
qed

theorem accounts_hygiene_witness:
  "set_order_ok order_a \<and>
   (\<exists>a logs. block_to_action order_a ex_call_block ''trace-1'' = (Inr a, logs) \<and>
      None \<notin> set (accounts a) \<and> distinct (accounts a))"
proof -
  from block_ok_returns [OF ex_call_block_ok] obtain a logs where
    r: "block_to_action order_a ex_call_block ''trace-1'' = (Inr a, logs)" by blast
  from accounts_hygiene [OF order_a_ok r] r order_a_ok show ?thesis by blast
qed

text \<open>
  Claim C5. In every action that \<^verbatim>\<open>block_to_action\<close> returns, each element of
  \<^verbatim>\<open>tx_hashes\<close> is an element of \<^verbatim>\<open>extended_tx_hashes\<close>, with or without an initiating
  event node.
\<close>

theorem tx_hashes_subset:
  assumes "set_order_ok it" and "block_to_action it b t = (Inr a, logs)"
  shows "set (tx_hashes a) \<subseteq> set (extended_tx_hashes a)"
proof -
  from assms(2) obtain a1 where
    a: "a = a1\<lparr>extended_tx_hashes := it (collected_hashes b a1),
           accounts := it (filter (\<lambda>x. x \<noteq> None) (collected_accounts b a1))\<rparr>"
    by (rule block_to_action_shape)
  have "set (extended_tx_hashes a) = set (collected_hashes b a1)"
    using assms(1) by (simp add: a set_order_ok_def)
  moreover have "tx_hashes a = tx_hashes a1" by (simp add: a)
  ultimately show ?thesis by (auto simp: collected_hashes_def)
qed

theorem tx_hashes_subset_witness:
  "set_order_ok order_b \<and>
   (\<exists>a logs. block_to_action order_b ex_unknown_block ''trace-1'' = (Inr a, logs) \<and>
      set (tx_hashes a) \<subseteq> set (extended_tx_hashes a))"
proof -
  from block_ok_returns [OF ex_unknown_block_ok] obtain a logs where
    r: "block_to_action order_b ex_unknown_block ''trace-1'' = (Inr a, logs)" by blast
  from tx_hashes_subset [OF order_b_ok r] r order_b_ok show ?thesis by blast
qed

lemma returned_hashes:
  assumes "set_order_ok it" and "block_to_action it b t = (Inr a, logs)"
  shows "set (tx_hashes a) = get_tx_hash ` set (event_nodes b)"
    and "set (extended_tx_hashes a) =
           set (tx_hashes a) \<union>
           (case initiating_event_node b of
              None \<Rightarrow> {}
            | Some n \<Rightarrow> {Some (or_empty (get_tx_hash n))})"
proof -
  from assms(2) obtain a1 where
    a: "a = a1\<lparr>extended_tx_hashes := it (collected_hashes b a1),
           accounts := it (filter (\<lambda>x. x \<noteq> None) (collected_accounts b a1))\<rparr>"
    by (rule block_to_action_shape)
  show "set (tx_hashes a) = get_tx_hash ` set (event_nodes b)"
    using assms(1) by (simp add: returned_tx_hashes [OF assms(2)] set_order_ok_def)
  have "set (extended_tx_hashes a) = set (collected_hashes b a1)"
    using assms(1) by (simp add: a set_order_ok_def)
  moreover have "tx_hashes a = tx_hashes a1" by (simp add: a)
  ultimately show "set (extended_tx_hashes a) =
           set (tx_hashes a) \<union>
           (case initiating_event_node b of
              None \<Rightarrow> {}
            | Some n \<Rightarrow> {Some (or_empty (get_tx_hash n))})"
    by (simp add: collected_hashes_def split: option.splits)
qed

text \<open>
  Claim C10. When the initiating event node has no transaction hash, the empty string
  stands for it in \<^verbatim>\<open>extended_tx_hashes\<close>, which holds that and the elements of
  \<^verbatim>\<open>tx_hashes\<close>; \<^verbatim>\<open>tx_hashes\<close> holds the hashes of the event nodes as the nodes return
  them, so the missing hash of an event node is the null there and not the empty string.
\<close>

theorem initiating_hash_unavailable:
  assumes "set_order_ok it" and "initiating_event_node b = Some n" and "get_tx_hash n = None"
  shows "(block_ok b \<longrightarrow> (\<exists>a logs. block_to_action it b t = (Inr a, logs))) \<and>
         (\<forall>a logs. block_to_action it b t = (Inr a, logs) \<longrightarrow>
            set (extended_tx_hashes a) = insert (Some '''') (set (tx_hashes a)) \<and>
            set (tx_hashes a) = get_tx_hash ` set (event_nodes b))"
  using block_ok_returns [of b it t] returned_hashes [OF assms(1), of b t] assms(2,3)
  by (auto simp: or_empty_def)

lemma ex_unknown_block_run:
  "returned (\<lambda>a. (tx_hashes a, extended_tx_hashes a, accounts a))
     (block_to_action order_a ex_unknown_block ''trace-1'') =
   Some ([Some ''hA'', Some ''hB'', None], [Some ''hA'', Some ''hB'', None, Some ''''],
         [Some ''bob'', Some ''alice'', Some ''carol''])"
  by (simp add: returned_def block_to_action_def base_block_to_action_def calc_action_id_def
      py_min_def ex_unknown_block_def ex_block_def ex_nodes_def ex_msg_node_def
      ex_tick_node_def ex_initiating_def node_account_def fill_accounts_and_hashes_def
      new_action_def or_empty_def order_a_def Let_def)

theorem initiating_hash_unavailable_witness:
  "set_order_ok order_a \<and> initiating_event_node ex_unknown_block = Some ex_initiating \<and>
   get_tx_hash ex_initiating = None \<and>
   (\<exists>a logs. block_to_action order_a ex_unknown_block ''trace-1'' = (Inr a, logs) \<and>
      set (extended_tx_hashes a) = insert (Some '''') (set (tx_hashes a)) \<and>
      set (tx_hashes a) = {Some ''hA'', Some ''hB'', None})"
proof -
  have i: "initiating_event_node ex_unknown_block = Some ex_initiating"
    by (simp add: ex_unknown_block_def ex_block_def)
  have h: "get_tx_hash ex_initiating = None"
    by (simp add: ex_initiating_def ex_msg_node_def)
  have n: "get_tx_hash ` set (event_nodes ex_unknown_block) = {Some ''hA'', Some ''hB'', None}"
    by (simp add: ex_unknown_block_def ex_block_def ex_nodes_def ex_msg_node_def
        ex_tick_node_def)
  from initiating_hash_unavailable [OF order_a_ok i h, of "''trace-1''"] ex_unknown_block_ok
  show ?thesis using order_a_ok i h n by auto
qed

subsection \<open>A block of no known class\<close>

lemma initiating_log_info: "\<forall>e\<in>set (initiating_log b t a). \<exists>m. e = Info m"
  by (auto simp: initiating_log_def split: option.splits)

text \<open>
  Claim C6, as amended. For a block of none of the known classes that has at least one
  event node and whose event nodes and initiating node carry what their kind requires (a
  tick-tock node its transaction, any other node its message), \<^verbatim>\<open>block_to_action\<close>
  raises nothing, logs a warning that holds the operation type and the trace id, and
  returns an action in which the trace id, the type, the action id of the identity
  deriver, the hashes of the event nodes, the time bounds and the success flag are set,
  the accounts are those of the event nodes and of the initiating node, the extended
  hashes add the hash of the initiating node, and every other field and every nested
  payload is null.
\<close>

theorem unknown_block_type:
  assumes "data b = OtherBlock" and "block_ok b" and "set_order_ok it"
  shows "\<exists>a rest accs.
           block_to_action it b t =
             (Inr a, Warning (''Unknown block type '' @ btype b @ '' for trace '' @ t) # rest) \<and>
           (\<forall>e\<in>set rest. \<exists>m. e = Info m) \<and>
           (trace_id a = t \<and> type a = btype b \<and> start_lt a = min_lt b \<and>
            end_lt a = max_lt b \<and> start_utime a = min_utime b \<and>
            end_utime a = max_utime b \<and> success a = (\<not> failed b)) \<and>
           calc_action_id b = Inr (action_id a) \<and>
           set (tx_hashes a) = get_tx_hash ` set (event_nodes b) \<and>
           node_accounts (event_nodes b) = Inr accs \<and>
           set (accounts a) = (set accs \<union> set (initiating_accounts b)) - {None} \<and>
           set (extended_tx_hashes a) =
             set (tx_hashes a) \<union>
             (case initiating_event_node b of
                None \<Rightarrow> {}
              | Some n \<Rightarrow> {Some (or_empty (get_tx_hash n))}) \<and>
           (source a = None \<and> source_secondary a = None \<and> destination a = None \<and>
            destination_secondary a = None \<and> asset a = None \<and> asset_secondary a = None \<and>
            asset2 a = None \<and> amount a = None \<and> act_value a = None \<and> opcode a = None) \<and>
           (ton_transfer_data a = None \<and> jetton_transfer_data a = None \<and>
            nft_transfer_data a = None \<and> nft_discovery_data a = None \<and>
            nft_mint_data a = None \<and> jetton_swap_data a = None \<and>
            dex_deposit_liquidity_data a = None \<and> dex_withdraw_liquidity_data a = None \<and>
            jvault_stake_data a = None \<and> jvault_claim_data a = None \<and>
            multisig_create_order_data a = None \<and> multisig_approve_data a = None \<and>
            vesting_send_message_data a = None \<and> vesting_add_whitelist_data a = None \<and>
            change_dns_record_data a = None \<and> staking_data a = None)"
  (is "\<exists>a rest accs. ?run a rest \<and> ?info rest \<and> ?base a \<and> ?id a \<and> ?hashes a \<and> ?nodes accs
         \<and> ?accounts a accs \<and> ?ext a \<and> ?generic a \<and> ?nested a")
proof -
  from block_ok_returns [OF assms(2)] obtain a logs where
    r: "block_to_action it b t = (Inr a, logs)" by blast
  from r obtain a0 a1 l1 where
    s: "base_block_to_action it b t = Inr a0"
       "fill_action (data b) b t a0 = (Inr a1, l1)"
       "logs = l1 @ initiating_log b t a1"
       "a = a1\<lparr>extended_tx_hashes := it (collected_hashes b a1),
              accounts := it (filter (\<lambda>x. x \<noteq> None) (collected_accounts b a1))\<rparr>"
    by (rule block_to_action_shape)
  from s(2) assms(1) have a1: "a1 = a0"
    and l1: "l1 = [Warning (''Unknown block type '' @ btype b @ '' for trace '' @ t)]"
    by simp_all
  from s(1) obtain aid accs where
    b: "calc_action_id b = Inr aid" "node_accounts (event_nodes b) = Inr accs"
       "a0 = (new_action t (btype b) aid (it (map get_tx_hash (event_nodes b)))
                (min_lt b) (max_lt b) (min_utime b) (max_utime b) (\<not> failed b))
             \<lparr>accounts := accs\<rparr>"
    unfolding base_block_to_action_Inr by blast
  have run: "?run a (initiating_log b t a0)"
    using r s(3) a1 l1 by simp
  have info: "?info (initiating_log b t a0)" by (rule initiating_log_info)
  have base: "?base a" by (simp add: s(4) a1 b(3) new_action_def)
  have generic: "?generic a" by (simp add: s(4) a1 b(3) new_action_def)
  have nested: "?nested a" by (simp add: s(4) a1 b(3) new_action_def)
  have "action_id a = aid" by (simp add: s(4) a1 b(3) new_action_def)
  with b(1) have id: "?id a" by simp
  have "collected_accounts b a0 = accs @ [None, None, None, None] @ initiating_accounts b"
    by (simp add: collected_accounts_def b(3) new_action_def)
  moreover have "accounts a = it (filter (\<lambda>x. x \<noteq> None) (collected_accounts b a0))"
    by (simp add: s(4) a1)
  ultimately have accounts: "?accounts a accs"
    using assms(3) by (auto simp: set_order_ok_def)
  note h = returned_hashes [OF assms(3) r]
  from run info base id h(1) b(2) accounts h(2) generic nested
  have "?run a (initiating_log b t a0) \<and> ?info (initiating_log b t a0) \<and> ?base a \<and> ?id a
        \<and> ?hashes a \<and> ?nodes accs \<and> ?accounts a accs \<and> ?ext a \<and> ?generic a \<and> ?nested a"
    by blast
  then show ?thesis by (intro exI)
qed

lemma ex_unknown_block_fields:
  "data ex_unknown_block = OtherBlock" "btype ex_unknown_block = ''mystery''"
  "min_lt ex_unknown_block = 3" "max_lt ex_unknown_block = 5"
  "min_utime ex_unknown_block = 100" "max_utime ex_unknown_block = 101"
  "\<not> failed ex_unknown_block"
  by (simp_all add: ex_unknown_block_def ex_block_def)

theorem unknown_block_type_witness:
  "data ex_unknown_block = OtherBlock \<and> block_ok ex_unknown_block \<and> set_order_ok order_b \<and>
   (\<exists>a rest.
      block_to_action order_b ex_unknown_block ''trace-1'' =
        (Inr a, Warning ''Unknown block type mystery for trace trace-1'' # rest) \<and>
      trace_id a = ''trace-1'' \<and> type a = ''mystery'' \<and> start_lt a = 3 \<and> end_lt a = 5 \<and>
      start_utime a = 100 \<and> end_utime a = 101 \<and> success a \<and>
      source a = None \<and> destination a = None \<and> staking_data a = None)"
proof -
  from unknown_block_type [OF ex_unknown_block_fields(1) ex_unknown_block_ok order_b_ok,
      of "''trace-1''"]
  obtain a rest where
    "block_to_action order_b ex_unknown_block ''trace-1'' =
       (Inr a, Warning (''Unknown block type '' @ btype ex_unknown_block
                        @ '' for trace '' @ ''trace-1'') # rest)"
    "trace_id a = ''trace-1'' \<and> type a = btype ex_unknown_block \<and>
     start_lt a = min_lt ex_unknown_block \<and> end_lt a = max_lt ex_unknown_block \<and>
     start_utime a = min_utime ex_unknown_block \<and>
     end_utime a = max_utime ex_unknown_block \<and> success a = (\<not> failed ex_unknown_block)"
    "source a = None" "destination a = None" "staking_data a = None"
    by blast
  then have
    "block_to_action order_b ex_unknown_block ''trace-1'' =
       (Inr a, Warning ''Unknown block type mystery for trace trace-1'' # rest) \<and>
     trace_id a = ''trace-1'' \<and> type a = ''mystery'' \<and> start_lt a = 3 \<and> end_lt a = 5 \<and>
     start_utime a = 100 \<and> end_utime a = 101 \<and> success a \<and>
     source a = None \<and> destination a = None \<and> staking_data a = None"
    by (simp add: ex_unknown_block_fields)
  then show ?thesis
    using ex_unknown_block_fields(1) ex_unknown_block_ok order_b_ok by blast
qed

text \<open>The claim as stated fails on a block of no known class that has no event node:
  the base converter raises before the warning is logged.\<close>

theorem unknown_block_no_nodes_counterexample:
  "data ex_no_nodes_block = OtherBlock \<and>
   block_to_action order_a ex_no_nodes_block ''trace-1'' = (Inl ValueError, [])"
  by (simp add: ex_no_nodes_block_def ex_unknown_block_def ex_block_def
      no_event_nodes_raises)

text \<open>With an initiating node that the assembler cannot read, the fault comes after the
  warning.\<close>

lemma unknown_block_bad_initiating_raises:
  "block_to_action order_a ex_bad_initiating_block ''trace-1'' =
     (Inl AttributeError, [Warning ''Unknown block type mystery for trace trace-1''])"
  by (simp add: block_to_action_def base_block_to_action_def calc_action_id_def py_min_def
      ex_bad_initiating_block_def ex_unknown_block_def ex_block_def ex_nodes_def
      ex_msg_node_def ex_tick_node_def ex_initiating_def node_account_def
      fill_accounts_and_hashes_def Let_def)

subsection \<open>Staking-pool withdrawals\<close>

text \<open>
  Claim C7. For a withdrawal block of a nominator pool, every returned action has the type
  \<^verbatim>\<open>stake_withdrawal_request\<close> if the payload has no payout amount, and the type
  \<^verbatim>\<open>stake_withdrawal\<close> with that payout as its amount if it has one; in both cases the
  staking data name the provider \<^verbatim>\<open>nominator\<close>. An action is returned whenever the
  event nodes and the initiating node can be read.
\<close>

theorem nominator_withdraw_request:
  assumes "data b = NominatorPoolWithdrawRequestBlock d"
  shows "(block_ok b \<longrightarrow> (\<exists>a logs. block_to_action it b t = (Inr a, logs))) \<and>
         (\<forall>a logs. block_to_action it b t = (Inr a, logs) \<longrightarrow>
            (case npw_payout_amount d of
               None \<Rightarrow> type a = ''stake_withdrawal_request''
             | Some p \<Rightarrow> type a = ''stake_withdrawal'' \<and> amount a = Some (value' p)) \<and>
            staking_data a = Some [(''provider'', PyStr ''nominator'')])"
proof (intro conjI allI impI)
  assume "block_ok b"
  then show "\<exists>a logs. block_to_action it b t = (Inr a, logs)" by (rule block_ok_returns)
next
  fix a logs
  assume "block_to_action it b t = (Inr a, logs)"
  then obtain a0 a1 l1 where
    s: "fill_action (data b) b t a0 = (Inr a1, l1)"
       "a = a1\<lparr>extended_tx_hashes := it (collected_hashes b a1),
              accounts := it (filter (\<lambda>x. x \<noteq> None) (collected_accounts b a1))\<rparr>"
    by (rule block_to_action_shape)
  from s(1) assms have a1: "a1 = fill_nominator_pool_withdraw_request_action d a0" by simp
  show "case npw_payout_amount d of
          None \<Rightarrow> type a = ''stake_withdrawal_request''
        | Some p \<Rightarrow> type a = ''stake_withdrawal'' \<and> amount a = Some (value' p)"
    by (simp add: s(2) a1 fill_nominator_pool_withdraw_request_action_def
        split: option.splits)
  show "staking_data a = Some [(''provider'', PyStr ''nominator'')]"
    by (simp add: s(2) a1 fill_nominator_pool_withdraw_request_action_def
        split: option.splits)
qed

lemma ex_nominator_block_data:
  "data (ex_nominator_block p) =
     NominatorPoolWithdrawRequestBlock
       \<lparr>npw_payout_amount = p, npw_source = AccountId ''alice'',
        npw_pool = AccountId ''pool''\<rparr>"
  by (simp add: ex_nominator_block_def ex_block_def)

theorem nominator_withdraw_request_witness:
  "(\<exists>a logs. block_to_action order_a (ex_nominator_block None) ''trace-1'' = (Inr a, logs) \<and>
      type a = ''stake_withdrawal_request'' \<and>
      staking_data a = Some [(''provider'', PyStr ''nominator'')]) \<and>
   (\<exists>a logs. block_to_action order_a (ex_nominator_block (Some (Amount 42))) ''trace-1'' =
        (Inr a, logs) \<and>
      type a = ''stake_withdrawal'' \<and> amount a = Some 42 \<and>
      staking_data a = Some [(''provider'', PyStr ''nominator'')])"
proof -
  note w = nominator_withdraw_request [OF ex_nominator_block_data, of _ order_a "''trace-1''"]
  from w [of None] ex_nominator_block_ok [of None]
  have 1: "\<exists>a logs. block_to_action order_a (ex_nominator_block None) ''trace-1'' =
      (Inr a, logs) \<and> type a = ''stake_withdrawal_request'' \<and>
      staking_data a = Some [(''provider'', PyStr ''nominator'')]"
    by fastforce
  from w [of "Some (Amount 42)"] ex_nominator_block_ok [of "Some (Amount 42)"]
  have 2: "\<exists>a logs. block_to_action order_a (ex_nominator_block (Some (Amount 42)))
      ''trace-1'' = (Inr a, logs) \<and> type a = ''stake_withdrawal'' \<and> amount a = Some 42 \<and>
      staking_data a = Some [(''provider'', PyStr ''nominator'')]"
    by fastforce
  from 1 2 show ?thesis by (rule conjI)
qed

subsection \<open>Comments of transfers\<close>

lemma jetton_comment_stored:
  assumes "fill_jetton_transfer_action d a = Inr a'" and "jt_comment d = Some c"
  shows "if jt_encrypted_comment d then
           payload_field (jetton_transfer_data a') ''comment'' = Some (PyStr (b64encode c))
         else \<exists>s. bytes_decode c = Inr s \<and>
                payload_field (jetton_transfer_data a') ''comment''
                  = Some (PyStr (filter (\<lambda>x. x \<noteq> CHR 0x00) s))"
proof -
  from assms(1) obtain ast comment where
    c: "jetton_transfer_comment (jt_comment d) (jt_encrypted_comment d) = Inr comment"
    and a': "payload_field (jetton_transfer_data a') ''comment'' = Some (py_str comment)"
    by (auto simp: fill_jetton_transfer_action_def Let_def payload_field_def
        split: sum.splits)
  from c assms(2) show ?thesis
    by (auto simp: a' jetton_transfer_comment_def py_str_def strip_nul_def
        split: if_splits sum.splits)
qed

lemma ton_comment_stored:
  assumes "fill_ton_transfer_action b d a = (Inr a', l)" and "tt_comment d = Some s"
  shows "payload_field (ton_transfer_data a') ''content''
           = Some (PyStr (filter (\<lambda>x. x \<noteq> CHR 0x00) s))"
    and "payload_field (ton_transfer_data a') ''encrypted'' = Some (tt_encrypted d)"
  using assms
  by (auto simp: fill_ton_transfer_action_def Let_def payload_field_def py_str_def
      strip_nul_def split: option.splits list.splits)

text \<open>
  Claim C8, as amended. In every returned action of a fungible-token transfer with a
  comment, the stored comment is the base64 encoding of the raw comment bytes if the
  comment is encrypted, and otherwise the UTF-8 decoding of the bytes with every zero
  character removed (on bytes that are not UTF-8 the decoding raises, and no action is
  returned). In every returned action of a native-currency transfer with a
  comment, the stored content is the comment text with every zero character removed,
  whether or not the transfer is flagged as encrypted; the flag is passed on.
\<close>

theorem transfer_comment:
  "(block_ok b \<longrightarrow> (\<exists>a logs. block_to_action it b t = (Inr a, logs))) \<and>
   (\<forall>a logs. block_to_action it b t = (Inr a, logs) \<longrightarrow>
      (\<forall>d c. data b = JettonTransferBlock d \<and> jt_comment d = Some c \<longrightarrow>
         (if jt_encrypted_comment d then
            payload_field (jetton_transfer_data a) ''comment'' = Some (PyStr (b64encode c))
          else \<exists>s. bytes_decode c = Inr s \<and>
                 payload_field (jetton_transfer_data a) ''comment''
                   = Some (PyStr (filter (\<lambda>x. x \<noteq> CHR 0x00) s)))) \<and>
      (\<forall>d s. data b = TonTransferBlock d \<and> tt_comment d = Some s \<longrightarrow>
         payload_field (ton_transfer_data a) ''content''
           = Some (PyStr (filter (\<lambda>x. x \<noteq> CHR 0x00) s)) \<and>
         payload_field (ton_transfer_data a) ''encrypted'' = Some (tt_encrypted d)))"
proof (intro conjI allI impI; (elim conjE)?)
  assume "block_ok b"
  then show "\<exists>a logs. block_to_action it b t = (Inr a, logs)" by (rule block_ok_returns)
next
  fix a logs d c
  assume "block_to_action it b t = (Inr a, logs)"
    and d: "data b = JettonTransferBlock d" "jt_comment d = Some c"
  then obtain a0 a1 l1 where
    s: "fill_action (data b) b t a0 = (Inr a1, l1)"
       "a = a1\<lparr>extended_tx_hashes := it (collected_hashes b a1),
              accounts := it (filter (\<lambda>x. x \<noteq> None) (collected_accounts b a1))\<rparr>"
    by (auto elim: block_to_action_shape)
  from s(1) d(1) have "fill_jetton_transfer_action d a0 = Inr a1" by simp
  from jetton_comment_stored [OF this d(2)]
  show "if jt_encrypted_comment d then
          payload_field (jetton_transfer_data a) ''comment'' = Some (PyStr (b64encode c))
        else \<exists>s. bytes_decode c = Inr s \<and>
               payload_field (jetton_transfer_data a) ''comment''
                 = Some (PyStr (filter (\<lambda>x. x \<noteq> CHR 0x00) s))"
    by (simp add: s(2))
next
  fix a logs d s
  assume "block_to_action it b t = (Inr a, logs)"
    and d: "data b = TonTransferBlock d" "tt_comment d = Some s"
  then obtain a0 a1 l1 where
    s: "fill_action (data b) b t a0 = (Inr a1, l1)"
       "a = a1\<lparr>extended_tx_hashes := it (collected_hashes b a1),
              accounts := it (filter (\<lambda>x. x \<noteq> None) (collected_accounts b a1))\<rparr>"
    by (auto elim: block_to_action_shape)
  from s(1) d(1) have f: "fill_ton_transfer_action b d a0 = (Inr a1, l1)" by simp
  from ton_comment_stored [OF f d(2)]
  show "payload_field (ton_transfer_data a) ''content''
          = Some (PyStr (filter (\<lambda>x. x \<noteq> CHR 0x00) s))"
    and "payload_field (ton_transfer_data a) ''encrypted'' = Some (tt_encrypted d)"
    by (simp_all add: s(2))
qed

lemma ex_jetton_block_ok: "block_ok (ex_jetton_block c True)"
  unfolding ex_jetton_block_def
  by (rule ex_block_ok) (simp_all add: payload_ok_def ex_jetton_transfer_def)

lemma ex_ton_block_ok: "block_ok (ex_ton_block (Some dst))"
  unfolding ex_ton_block_def
  by (rule ex_block_ok) (simp_all add: payload_ok_def ex_ton_transfer_def)

text \<open>The encrypted comment \<^verbatim>\<open>b"\x01\x02"\<close> of a fungible-token transfer is stored as
  \<^verbatim>\<open>AQI=\<close>; the comment of the native-currency example loses its zero character.\<close>

theorem transfer_comment_witness:
  "(\<exists>a logs. block_to_action order_a (ex_jetton_block [0x01, 0x02] True) ''trace-1''
               = (Inr a, logs) \<and>
      payload_field (jetton_transfer_data a) ''comment'' = Some (PyStr ''AQI='')) \<and>
   (\<exists>a logs. block_to_action order_a (ex_ton_block (Some (AccountId ''dave''))) ''trace-1''
               = (Inr a, logs) \<and>
      payload_field (ton_transfer_data a) ''content'' = Some (PyStr ''ab''))"
proof -
  have j: "data (ex_jetton_block [0x01, 0x02] True)
             = JettonTransferBlock (ex_jetton_transfer [0x01, 0x02] True)"
      "jt_comment (ex_jetton_transfer [0x01, 0x02] True) = Some [0x01, 0x02]"
      "jt_encrypted_comment (ex_jetton_transfer [0x01, 0x02] True)"
    by (simp_all add: ex_jetton_block_def ex_block_def ex_jetton_transfer_def)
  have e: "b64encode [0x01, 0x02] = ''AQI=''"
    by (simp add: b64_char_def)
  from transfer_comment [of "ex_jetton_block [0x01, 0x02] True" order_a "''trace-1''"]
    ex_jetton_block_ok [of "[0x01, 0x02]"] j
  have 1: "\<exists>a logs. block_to_action order_a (ex_jetton_block [0x01, 0x02] True) ''trace-1''
               = (Inr a, logs) \<and>
      payload_field (jetton_transfer_data a) ''comment'' = Some (PyStr ''AQI='')"
    unfolding e [symmetric] by fastforce
  have t: "data (ex_ton_block (Some (AccountId ''dave'')))
             = TonTransferBlock (ex_ton_transfer (Some (AccountId ''dave'')))"
      "tt_comment (ex_ton_transfer (Some (AccountId ''dave'')))
         = Some [CHR ''a'', CHR 0x00, CHR ''b'']"
    by (simp_all add: ex_ton_block_def ex_block_def ex_ton_transfer_def)
  have f: "filter (\<lambda>x. x \<noteq> CHR 0x00) [CHR ''a'', CHR 0x00, CHR ''b''] = ''ab''"
    by simp
  from transfer_comment [of "ex_ton_block (Some (AccountId ''dave''))" order_a "''trace-1''"]
    ex_ton_block_ok [of "AccountId ''dave''"] t
  have 2: "\<exists>a logs. block_to_action order_a (ex_ton_block (Some (AccountId ''dave'')))
               ''trace-1'' = (Inr a, logs) \<and>
      payload_field (ton_transfer_data a) ''content'' = Some (PyStr ''ab'')"
    unfolding f [symmetric] by fastforce
  from 1 2 show ?thesis by (rule conjI)
qed

text \<open>The claim as stated fails on a native-currency transfer that is flagged as
  encrypted: the stored content is the comment without its zero character, not the
  base64 encoding of the comment's bytes.\<close>

theorem ton_transfer_encrypted_counterexample:
  "returned (\<lambda>a. (payload_field (ton_transfer_data a) ''encrypted'',
                  payload_field (ton_transfer_data a) ''content''))
     (block_to_action order_a (ex_ton_block (Some (AccountId ''dave''))) ''trace-1'')
   = Some (Some (PyBool True), Some (PyStr ''ab'')) \<and>
   b64encode (str_encode [CHR ''a'', CHR 0x00, CHR ''b'']) = ''YQBi''"
  by (simp add: returned_def block_to_action_def base_block_to_action_def calc_action_id_def
      py_min_def ex_ton_block_def ex_block_def ex_nodes_def ex_msg_node_def ex_tick_node_def
      node_account_def fill_ton_transfer_action_def ex_ton_transfer_def
      fill_accounts_and_hashes_def payload_field_def py_str_def strip_nul_def
      str_encode_def b64_char_def Let_def)

subsection \<open>Assets of a swap\<close>

lemma swap_assets:
  assumes "fill_jetton_swap_action d a = Inr a'"
  shows "js_dex d \<noteq> ''stonfi_v2'' \<longrightarrow> asset a' = addr (st_asset (js_dex_incoming_transfer d))"
    and "js_dex d \<noteq> ''stonfi_v2'' \<and>
         (js_destination_asset d = None \<or> js_destination_asset d = Some None) \<longrightarrow>
         asset2 a' = addr (st_asset (js_dex_outgoing_transfer d))"
    and "js_dex d = ''stonfi_v2'' \<longrightarrow>
         (\<exists>sa da. js_source_asset d = Some sa \<and> js_destination_asset d = Some da \<and>
            asset a' = addr sa \<and> asset2 a' = addr da)"
    and "\<forall>x. js_destination_asset d = Some (Some x) \<longrightarrow> asset2 a' = addr (Some x)"
  using assms
  by (auto simp: fill_jetton_swap_action_def Let_def
      split: if_splits option.splits sum.splits)

text \<open>
  Claim C9, as amended. In every returned action of a swap, \<^verbatim>\<open>asset\<close> and \<^verbatim>\<open>asset2\<close>
  are the resolved assets of the incoming and of the outgoing leg, with two exceptions.
  For the exchange \<^verbatim>\<open>stonfi_v2\<close> both are the resolved source and destination asset of
  the payload, null included. For every exchange a destination asset of the payload that
  is present and not null is resolved into \<^verbatim>\<open>asset2\<close>. The source asset of the payload
  is read for \<^verbatim>\<open>stonfi_v2\<close> only: for any other exchange \<^verbatim>\<open>asset\<close> is that of the
  incoming leg whatever the payload reports, and a null destination asset leaves
  \<^verbatim>\<open>asset2\<close> that of the outgoing leg.
\<close>

theorem jetton_swap_assets:
  assumes "data b = JettonSwapBlock d"
  shows "(block_ok b \<longrightarrow> (\<exists>a logs. block_to_action it b t = (Inr a, logs))) \<and>
         (\<forall>a logs. block_to_action it b t = (Inr a, logs) \<longrightarrow>
            (js_dex d \<noteq> ''stonfi_v2'' \<longrightarrow>
               asset a = addr (st_asset (js_dex_incoming_transfer d))) \<and>
            (js_dex d \<noteq> ''stonfi_v2'' \<and>
             (js_destination_asset d = None \<or> js_destination_asset d = Some None) \<longrightarrow>
               asset2 a = addr (st_asset (js_dex_outgoing_transfer d))) \<and>
            (js_dex d = ''stonfi_v2'' \<longrightarrow>
               (\<exists>sa da. js_source_asset d = Some sa \<and> js_destination_asset d = Some da \<and>
                  asset a = addr sa \<and> asset2 a = addr da)) \<and>
            (\<forall>x. js_destination_asset d = Some (Some x) \<longrightarrow> asset2 a = addr (Some x)))"
proof (intro conjI allI impI)
  assume "block_ok b"
  then show "\<exists>a logs. block_to_action it b t = (Inr a, logs)" by (rule block_ok_returns)
next
  fix a logs
  assume "block_to_action it b t = (Inr a, logs)"
  then obtain a0 a1 l1 where
    s: "fill_action (data b) b t a0 = (Inr a1, l1)"
       "a = a1\<lparr>extended_tx_hashes := it (collected_hashes b a1),
              accounts := it (filter (\<lambda>x. x \<noteq> None) (collected_accounts b a1))\<rparr>"
    by (rule block_to_action_shape)
  from s(1) assms have f: "fill_jetton_swap_action d a0 = Inr a1" by simp
  have a: "asset a = asset a1" "asset2 a = asset2 a1" by (simp_all add: s(2))
  note sw = swap_assets [OF f, folded a]
  {
    assume "js_dex d \<noteq> ''stonfi_v2''"
    with sw(1) show "asset a = addr (st_asset (js_dex_incoming_transfer d))" by simp
  }
  {
    assume "js_dex d \<noteq> ''stonfi_v2'' \<and>
      (js_destination_asset d = None \<or> js_destination_asset d = Some None)"
    with sw(2) show "asset2 a = addr (st_asset (js_dex_outgoing_transfer d))" by simp
  }
  {
    assume "js_dex d = ''stonfi_v2''"
    with sw(3) show "\<exists>sa da. js_source_asset d = Some sa \<and> js_destination_asset d = Some da \<and>
        asset a = addr sa \<and> asset2 a = addr da" by simp
  }
  {
    fix x
    assume "js_destination_asset d = Some (Some x)"
    with sw(4) show "asset2 a = addr (Some x)" by simp
  }
qed

lemma ex_swap_block_ok:
  "dex \<noteq> ''stonfi_v2'' \<or> (sa \<noteq> None \<and> da \<noteq> None) \<Longrightarrow> block_ok (ex_swap_block dex sa da)"
  unfolding ex_swap_block_def
  by (rule ex_block_ok) (auto simp: payload_ok_def ex_swap_def)

text \<open>An exchange that reports no assets leaves the assets of the legs; \<^verbatim>\<open>stonfi_v2\<close>
  with explicit assets replaces them.\<close>

theorem jetton_swap_assets_witness:
  "(\<exists>a logs. block_to_action order_a (ex_swap_block ''dedust'' None None) ''trace-1''
               = (Inr a, logs) \<and>
      asset a = Some ''jetA'' \<and> asset2 a = Some ''jetB'') \<and>
   (\<exists>a logs. block_to_action order_a
                (ex_swap_block ''stonfi_v2'' (Some (Some (ex_jetton ''jetX'')))
                   (Some (Some (ex_jetton ''jetY'')))) ''trace-1''
               = (Inr a, logs) \<and>
      asset a = Some ''jetX'' \<and> asset2 a = Some ''jetY'')"
proof -
  have d: "data (ex_swap_block dex sa da) = JettonSwapBlock (ex_swap dex sa da)"
    for dex sa da
    by (simp add: ex_swap_block_def ex_block_def)
  from jetton_swap_assets [OF d, of "''dedust''" None None order_a "''trace-1''"]
    ex_swap_block_ok [of "''dedust''" None None]
  have 1: "\<exists>a logs. block_to_action order_a (ex_swap_block ''dedust'' None None) ''trace-1''
               = (Inr a, logs) \<and>
      asset a = Some ''jetA'' \<and> asset2 a = Some ''jetB''"
    by (fastforce simp: ex_swap_def ex_leg_def ex_jetton_def)
  from jetton_swap_assets [OF d, of "''stonfi_v2''" "Some (Some (ex_jetton ''jetX''))"
      "Some (Some (ex_jetton ''jetY''))" order_a "''trace-1''"]
    ex_swap_block_ok [of "''stonfi_v2''" "Some (Some (ex_jetton ''jetX''))"
      "Some (Some (ex_jetton ''jetY''))"]
  have 2: "\<exists>a logs. block_to_action order_a
                (ex_swap_block ''stonfi_v2'' (Some (Some (ex_jetton ''jetX'')))
                   (Some (Some (ex_jetton ''jetY'')))) ''trace-1''
               = (Inr a, logs) \<and>
      asset a = Some ''jetX'' \<and> asset2 a = Some ''jetY''"
    by (fastforce simp: ex_swap_def ex_leg_def ex_jetton_def)
  from 1 2 show ?thesis by (rule conjI)
qed

text \<open>The claim as stated fails on an exchange other than \<^verbatim>\<open>stonfi_v2\<close> whose payload
  reports a source asset: the action keeps the asset of the incoming leg.\<close>

theorem swap_source_asset_counterexample:
  "js_source_asset (ex_swap ''dedust'' (Some (Some (ex_jetton ''jetX''))) None)
     = Some (Some (ex_jetton ''jetX'')) \<and>
   addr (Some (ex_jetton ''jetX'')) = Some ''jetX'' \<and>
   returned asset
     (block_to_action order_a
        (ex_swap_block ''dedust'' (Some (Some (ex_jetton ''jetX''))) None) ''trace-1'')
     = Some (Some ''jetA'')"
  by (simp add: returned_def block_to_action_def base_block_to_action_def calc_action_id_def
      py_min_def ex_swap_block_def ex_swap_def ex_leg_def ex_jetton_def ex_block_def
      ex_nodes_def ex_msg_node_def ex_tick_node_def node_account_def
      fill_jetton_swap_action_def fill_accounts_and_hashes_def Let_def)

text \<open>For \<^verbatim>\<open>stonfi_v2\<close> explicit nulls replace the assets of the legs.\<close>

lemma swap_stonfi_null_assets:
  "returned (\<lambda>a. (asset a, asset2 a))
     (block_to_action order_a (ex_swap_block ''stonfi_v2'' (Some None) (Some None))
        ''trace-1'')
     = Some (None, None)"
  by (simp add: returned_def block_to_action_def base_block_to_action_def calc_action_id_def
      py_min_def ex_swap_block_def ex_swap_def ex_leg_def ex_jetton_def ex_block_def
      ex_nodes_def ex_msg_node_def ex_tick_node_def node_account_def
      fill_jetton_swap_action_def fill_accounts_and_hashes_def Let_def)

section \<open>Two runs on the same input\<close>

text \<open>No normalizer reads the transaction hashes: replacing them before the normalizer
  runs is the same as replacing them in its result.\<close>

lemma ton_with_tx_hashes:
  "fill_ton_transfer_action b d (a\<lparr>tx_hashes := x\<rparr>)
     = with_tx_hashes x (fill_ton_transfer_action b d a)"
  by (simp add: fill_ton_transfer_action_def with_tx_hashes_def Let_def
      split: option.splits list.splits)

lemma jetton_with_tx_hashes:
  "fill_jetton_transfer_action d (a\<lparr>tx_hashes := x\<rparr>)
     = map_sum id (\<lambda>a. a\<lparr>tx_hashes := x\<rparr>) (fill_jetton_transfer_action d a)"
  by (simp add: fill_jetton_transfer_action_def Let_def split: sum.splits)

lemma nft_with_tx_hashes:
  "fill_nft_transfer_action d (a\<lparr>tx_hashes := x\<rparr>)
     = map_sum id (\<lambda>a. a\<lparr>tx_hashes := x\<rparr>) (fill_nft_transfer_action d a)"
  by (simp add: fill_nft_transfer_action_def Let_def split: sum.splits option.splits)

lemma election_with_tx_hashes:
  "fill_election_action d (a\<lparr>tx_hashes := x\<rparr>)
     = map_sum id (\<lambda>a. a\<lparr>tx_hashes := x\<rparr>) (fill_election_action d a)"
  by (simp add: fill_election_action_def Let_def split: sum.splits)

lemma burn_with_tx_hashes:
  "fill_jetton_burn_action d (a\<lparr>tx_hashes := x\<rparr>)
     = map_sum id (\<lambda>a. a\<lparr>tx_hashes := x\<rparr>) (fill_jetton_burn_action d a)"
  by (simp add: fill_jetton_burn_action_def Let_def split: option.splits)

lemma swap_with_tx_hashes:
  "fill_jetton_swap_action d (a\<lparr>tx_hashes := x\<rparr>)
     = map_sum id (\<lambda>a. a\<lparr>tx_hashes := x\<rparr>) (fill_jetton_swap_action d a)"
  by (simp add: fill_jetton_swap_action_def Let_def split: option.splits)

lemma dns_with_tx_hashes:
  "fill_change_dns_record_action d (a\<lparr>tx_hashes := x\<rparr>)
     = map_sum id (\<lambda>a. a\<lparr>tx_hashes := x\<rparr>) (fill_change_dns_record_action d a)"
  by (simp add: fill_change_dns_record_action_def Let_def
      split: option.splits dns_address.splits)

lemma fill_action_with_tx_hashes:
  "fill_action d b t (a\<lparr>tx_hashes := x\<rparr>) = with_tx_hashes x (fill_action d b t a)"
  by (cases d)
     (simp_all add: with_tx_hashes_def ton_with_tx_hashes [unfolded with_tx_hashes_def]
        jetton_with_tx_hashes nft_with_tx_hashes election_with_tx_hashes
        burn_with_tx_hashes swap_with_tx_hashes dns_with_tx_hashes
        fill_defs Let_def split: option.splits)

lemma base_block_to_action_orders:
  "base_block_to_action it' b t =
     map_sum id (\<lambda>a. a\<lparr>tx_hashes := it' (map get_tx_hash (event_nodes b))\<rparr>)
       (base_block_to_action it b t)"
  by (simp add: base_block_to_action_def new_action_def Let_def split: sum.splits)

lemma same_elements_orders:
  assumes "set_order_ok it" and "set_order_ok it'"
  shows "same_elements (it xs) (it' xs)"
    and "same_elements (it (it xs @ ys)) (it' (it' xs @ ys))"
  using assms by (simp_all add: same_elements_def set_order_ok_def)

text \<open>
  Claim C2, as amended. Two runs of the conversion on the same block and trace id have the
  same outcome: the same exception, or actions with the same action id and the same value
  in every field but the three lists; they write the same diagnostics; and each of
  \<^verbatim>\<open>tx_hashes\<close>, \<^verbatim>\<open>extended_tx_hashes\<close> and \<^verbatim>\<open>accounts\<close> holds the same elements in both
  runs, each once. The order of a list is the iteration order of a set in the run that
  made it: two runs that iterate sets alike (\<open>it = it'\<close>) return the same lists, two
  processes need not.
\<close>

theorem runs_agree_up_to_order:
  assumes "set_order_ok it" and "set_order_ok it'"
  shows "runs_agree (block_to_action it b t) (block_to_action it' b t)"
proof (cases "base_block_to_action it b t")
  case (Inl e)
  then have "base_block_to_action it' b t = Inl e"
    by (simp add: base_block_to_action_orders [of it' b t it])
  with Inl show ?thesis by (simp add: runs_agree_def block_to_action_def)
next
  case (Inr a0)
  let ?x = "map get_tx_hash (event_nodes b)"
  have base': "base_block_to_action it' b t = Inr (a0\<lparr>tx_hashes := it' ?x\<rparr>)"
    by (simp add: base_block_to_action_orders [of it' b t it] Inr)
  have tx0: "tx_hashes a0 = it ?x" by (rule base_tx_hashes [OF Inr])
  obtain r1 l1 where f: "fill_action (data b) b t a0 = (r1, l1)"
    by (cases "fill_action (data b) b t a0")
  have f': "fill_action (data b) b t (a0\<lparr>tx_hashes := it' ?x\<rparr>)
              = (map_sum id (\<lambda>a. a\<lparr>tx_hashes := it' ?x\<rparr>) r1, l1)"
    by (simp add: fill_action_with_tx_hashes f with_tx_hashes_def)
  show ?thesis
  proof (cases r1)
    case (Inl e)
    then show ?thesis
      by (simp add: runs_agree_def block_to_action_def Inr base' f f')
  next
    case r1: (Inr a1)
    have tx1: "tx_hashes a1 = it ?x"
      using fill_action_frame [OF f [unfolded r1]] tx0 by (simp add: same_base_fields_def)
    let ?a1' = "a1\<lparr>tx_hashes := it' ?x\<rparr>"
    let ?ini = "case initiating_event_node b of
                  None \<Rightarrow> [] | Some n \<Rightarrow> [Some (or_empty (get_tx_hash n))]"
    let ?accs = "filter (\<lambda>x. x \<noteq> None) (collected_accounts b a1)"
    have run: "block_to_action it b t
        = ((if initiating_ok b then
              Inr (a1\<lparr>extended_tx_hashes := it (it ?x @ ?ini), accounts := it ?accs\<rparr>)
            else Inl AttributeError),
           l1 @ initiating_log b t a1)"
      by (simp add: block_to_action_def Inr f r1 fill_accounts_and_hashes_eq
          collected_hashes_def tx1)
    have log': "initiating_log b t ?a1' = initiating_log b t a1"
      by (simp add: initiating_log_def split: option.splits)
    have accs': "collected_accounts b ?a1' = collected_accounts b a1"
      by (simp add: collected_accounts_def)
    have run': "block_to_action it' b t
        = ((if initiating_ok b then
              Inr (?a1'\<lparr>extended_tx_hashes := it' (it' ?x @ ?ini), accounts := it' ?accs\<rparr>)
            else Inl AttributeError),
           l1 @ initiating_log b t a1)"
      by (simp add: block_to_action_def base' f' r1 fill_accounts_and_hashes_eq
          collected_hashes_def log' accs')
    show ?thesis
    proof (cases "initiating_ok b")
      case True
      have "same_up_to_order
              (a1\<lparr>extended_tx_hashes := it (it ?x @ ?ini), accounts := it ?accs\<rparr>)
              (?a1'\<lparr>extended_tx_hashes := it' (it' ?x @ ?ini), accounts := it' ?accs\<rparr>)"
        using same_elements_orders [OF assms]
        by (simp add: same_up_to_order_def tx1)
      with True show ?thesis by (simp add: runs_agree_def run run')
    next
      case False
      then show ?thesis by (simp add: runs_agree_def run run')
    qed
  qed
qed

lemma ex_unknown_block_run_b:
  "returned (\<lambda>a. (tx_hashes a, extended_tx_hashes a, accounts a))
     (block_to_action order_b ex_unknown_block ''trace-1'') =
   Some ([None, Some ''hB'', Some ''hA''], [Some '''', Some ''hA'', Some ''hB'', None],
         [Some ''carol'', Some ''alice'', Some ''bob''])"
  by (simp add: returned_def block_to_action_def base_block_to_action_def calc_action_id_def
      py_min_def ex_unknown_block_def ex_block_def ex_nodes_def ex_msg_node_def
      ex_tick_node_def ex_initiating_def node_account_def fill_accounts_and_hashes_def
      new_action_def or_empty_def order_b_def Let_def)

text \<open>On the example block the two orders give the same action id and the same elements,
  in another order.\<close>

theorem runs_agree_up_to_order_witness:
  "set_order_ok order_a \<and> set_order_ok order_b \<and>
   runs_agree (block_to_action order_a ex_unknown_block ''trace-1'')
     (block_to_action order_b ex_unknown_block ''trace-1'') \<and>
   returned action_id (block_to_action order_a ex_unknown_block ''trace-1'')
     = returned action_id (block_to_action order_b ex_unknown_block ''trace-1'')"
proof -
  note r = runs_agree_up_to_order [OF order_a_ok order_b_ok, of ex_unknown_block "''trace-1''"]
  then have "returned action_id (block_to_action order_a ex_unknown_block ''trace-1'')
     = returned action_id (block_to_action order_b ex_unknown_block ''trace-1'')"
    by (auto simp: runs_agree_def returned_def same_up_to_order_def split: sum.splits)
  with r order_a_ok order_b_ok show ?thesis by simp
qed

text \<open>The claim as stated fails on the list-valued fields: for two iteration orders of
  the sets, the two runs return the transaction hashes in different orders.\<close>

theorem list_order_counterexample:
  "set_order_ok order_a \<and> set_order_ok order_b \<and>
   returned tx_hashes (block_to_action order_a ex_unknown_block ''trace-1'')
     = Some [Some ''hA'', Some ''hB'', None] \<and>
   returned tx_hashes (block_to_action order_b ex_unknown_block ''trace-1'')
     = Some [None, Some ''hB'', Some ''hA''] \<and>
   block_to_action order_a ex_unknown_block ''trace-1''
     \<noteq> block_to_action order_b ex_unknown_block ''trace-1''"
proof -
  have a: "returned tx_hashes (block_to_action order_a ex_unknown_block ''trace-1'')
     = Some [Some ''hA'', Some ''hB'', None]"
    using ex_unknown_block_run by (auto simp: returned_def split: sum.splits)
  have b: "returned tx_hashes (block_to_action order_b ex_unknown_block ''trace-1'')
     = Some [None, Some ''hB'', Some ''hA'']"
    using ex_unknown_block_run_b by (auto simp: returned_def split: sum.splits)
  from a b have "block_to_action order_a ex_unknown_block ''trace-1''
     \<noteq> block_to_action order_b ex_unknown_block ''trace-1''"
    by auto
  with a b order_a_ok order_b_ok show ?thesis by simp
qed

end
